theory Spec2Isabelle
  imports Complex_Main
begin

section \<open>Data model of the hermes promise settler\<close>

text \<open>
  The settler of \<^verbatim>\<open>session/pingpong/hermes_promise_settler.go\<close> keeps one
  \<^verbatim>\<open>settlementState\<close> per identity in the map \<^verbatim>\<open>currentState\<close>, guarded by the
  read/write lock \<^verbatim>\<open>lock\<close>. Identities and addresses are opaque handles here;
  \<^verbatim>\<open>*big.Int\<close> values are unbounded integers, and a \<^verbatim>\<open>*big.Int\<close> that may be
  \<^verbatim>\<open>nil\<close> is an \<open>int option\<close>.
\<close>

type_synonym identity = string
type_synonym address = string

record settlementState =
  settleInProgress :: bool
  registered :: bool

type_synonym store = "identity \<rightharpoonup> settlementState"

text \<open>
  \<^verbatim>\<open>crypto.Promise\<close>: the fields the settler reads or writes (\<^verbatim>\<open>ChainID\<close>,
  \<^verbatim>\<open>Amount\<close>, \<^verbatim>\<open>Fee\<close>, \<^verbatim>\<open>R\<close>), and the signature that stands for the rest.
\<close>

record promise =
  ChainID :: int
  Amount :: int
  Fee :: int
  R :: "nat list"
  Signature :: "nat list"

text \<open>
  \<^verbatim>\<open>HermesChannel\<close>. The struct and its accessors \<^verbatim>\<open>UnsettledBalance()\<close>,
  \<^verbatim>\<open>availableBalance()\<close> and \<^verbatim>\<open>balance()\<close> are declared in another file of the
  package; the values they return are taken as fields of the snapshot.
  \<^verbatim>\<open>lastPromiseR\<close> is \<^verbatim>\<open>lastPromise.R\<close>, the hex text of the secret, and
  \<^verbatim>\<open>lastPromise\<close> is \<^verbatim>\<open>lastPromise.Promise\<close>.
\<close>

record hermesChannel =
  Identity :: identity
  HermesID :: address
  Beneficiary :: address
  Stake :: int
  Settled :: "int option"
  UnsettledBalance :: int
  availableBalance :: int
  balance :: int
  lastPromiseR :: string
  lastPromise :: promise

section \<open>The settlement decision policy\<close>

subsection \<open>The fragment of \<^verbatim>\<open>math/big\<close> that \<^verbatim>\<open>needsSettling\<close> uses\<close>

text \<open>
  A finite \<^verbatim>\<open>float64\<close> is \<open>m * 2 ^ e\<close> for integers \<open>m\<close> (at most 53 bits) and
  \<open>e\<close>; \<open>Float64 1 (-1)\<close> is \<open>0.5\<close>. A finite \<^verbatim>\<open>big.Float\<close> is a signed
  mantissa, a binary exponent and a precision in bits.
\<close>

datatype float64 = Float64 int int

record bigFloat =
  mant :: int
  expo :: int
  prec :: nat

fun bitLen :: "nat \<Rightarrow> nat" where
  "bitLen n = (if n = 0 then 0 else Suc (bitLen (n div 2)))"

declare bitLen.simps [simp del]

text \<open>\<^verbatim>\<open>big.NewFloat(x)\<close>: the value of \<open>x\<close>, exactly, with precision 53.\<close>

definition NewFloat :: "float64 \<Rightarrow> bigFloat" where
  "NewFloat x = (case x of Float64 m e \<Rightarrow> \<lparr>mant = m, expo = e, prec = 53\<rparr>)"

text \<open>
  \<^verbatim>\<open>new(big.Float).SetInt(x)\<close>: the receiver's precision is 0, so it becomes the
  larger of \<^verbatim>\<open>x.BitLen()\<close> and 64, and the value is exact.
\<close>

definition SetInt :: "int \<Rightarrow> bigFloat" where
  "SetInt x = \<lparr>mant = x, expo = 0, prec = max (bitLen (nat \<bar>x\<bar>)) 64\<rparr>"

text \<open>
  Rounding a mantissa to \<open>p\<close> bits, to nearest and to even on a tie (the rounding
  mode of a fresh \<^verbatim>\<open>big.Float\<close>): the rounded mantissa and the number of bits dropped.
\<close>

definition roundNearestEven :: "nat \<Rightarrow> nat \<Rightarrow> nat \<times> nat" where
  "roundNearestEven p m =
     (let l = bitLen m in
      if l \<le> p then (m, 0)
      else
        let k = l - p; q = m div 2 ^ k; r = m mod 2 ^ k; h = 2 ^ (k - 1)
        in (if h < r \<or> (r = h \<and> odd q) then q + 1 else q, k))"

text \<open>
  \<^verbatim>\<open>new(big.Float).Mul(x, y)\<close>: the receiver's precision is 0, so it becomes the larger
  of the operands' precisions, and the exact product is rounded to it.
\<close>

definition FloatMul :: "bigFloat \<Rightarrow> bigFloat \<Rightarrow> bigFloat" where
  "FloatMul x y =
     (let p = max (prec x) (prec y);
          m = mant x * mant y;
          (a, k) = roundNearestEven p (nat \<bar>m\<bar>)
      in \<lparr>mant = sgn m * int a, expo = expo x + expo y + int k, prec = p\<rparr>)"

text \<open>\<^verbatim>\<open>x.Int(nil)\<close>: the value truncated towards zero.\<close>

definition FloatInt :: "bigFloat \<Rightarrow> int" where
  "FloatInt x =
     (if 0 \<le> expo x then mant x * 2 ^ nat (expo x)
      else sgn (mant x) * (\<bar>mant x\<bar> div 2 ^ nat (- expo x)))"

text \<open>Lines 843 to 846: \<^verbatim>\<open>calculatedThreshold\<close> and its integer part \<^verbatim>\<open>i\<close>.\<close>

definition calculatedThreshold :: "float64 \<Rightarrow> int \<Rightarrow> int" where
  "calculatedThreshold threshold avail = FloatInt (FloatMul (NewFloat threshold) (SetInt avail))"

subsection \<open>\<^verbatim>\<open>settlementState.needsSettling\<close>\<close>

text \<open>
  \<^verbatim>\<open>crypto.Myst\<close>, one unit of the base currency, is a constant of an imported
  package: it is the parameter \<open>myst\<close> (a \<^verbatim>\<open>uint64\<close>).
\<close>

definition needsSettling :: "nat \<Rightarrow> settlementState \<Rightarrow> float64 \<Rightarrow> hermesChannel \<Rightarrow> bool" where
  "needsSettling myst ss threshold channel =
     (if \<not> registered ss then False
      else if settleInProgress ss then False
      else if Stake channel = 0 \<and> UnsettledBalance channel < int myst then False
      else
        let i = calculatedThreshold threshold (availableBalance channel);
            possibleEarnings = UnsettledBalance channel
        in if possibleEarnings < i then False
           else if balance channel \<le> i then True
           else False)"

text \<open>The truncated half of an integer, towards zero.\<close>

definition truncHalf :: "int \<Rightarrow> int" where
  "truncHalf x = sgn x * (\<bar>x\<bar> div 2)"

section \<open>Errors, effects and collaborators\<close>

text \<open>
  Every error the settler creates itself is a constructor; an error handed back by a
  collaborator is \<open>Collaborator\<close>, and \<^verbatim>\<open>fmt.Errorf("...: %w", err)\<close> is \<open>Wrapped\<close>.
  A call on the random source when the field \<^verbatim>\<open>rnd\<close> is \<^verbatim>\<open>nil\<close> panics: that is
  \<open>NilPointerPanic\<close>, and the deferred calls still run.
  \<^verbatim>\<open>ErrNothingToSettle\<close> and \<^verbatim>\<open>ErrSettleTimeout\<close> are the two package variables
  made with \<^verbatim>\<open>errors.New\<close>; \<^verbatim>\<open>ErrNotFound\<close> is declared elsewhere in the package.
\<close>

datatype error =
    ErrNothingToSettle
  | ErrSettleTimeout
  | ErrNotFound
  | ErrAlreadySettling
  | ErrFeesExceedEarnings int int
  | ErrAmountTooSmall int int
  | ErrWrongChain int int
  | ErrNothingToWithdraw address int
  | ErrHexDecode
  | NilPointerPanic
  | Collaborator string
  | Wrapped string error

text \<open>\<^verbatim>\<open>errors.Is(err, ErrNotFound)\<close>: the error or one it wraps.\<close>

fun isNotFound :: "error \<Rightarrow> bool" where
  "isNotFound ErrNotFound = True"
| "isNotFound (Wrapped _ e) = isNotFound e"
| "isNotFound _ = False"

text \<open>
  \<^verbatim>\<open>registry.RegistrationStatus\<close>: the source names \<^verbatim>\<open>registry.Registered\<close> only;
  every other status is \<open>OtherStatus\<close>.
\<close>

datatype registrationStatus = Registered | OtherStatus nat

text \<open>\<^verbatim>\<open>bindings.HermesImplementationPromiseSettled\<close>, the confirmation event.\<close>

record promiseSettled =
  TxHash :: string
  AmountSentToBeneficiary :: int
  Fees :: int

record settlementHistoryEntry =
  she_TxHash :: string
  she_ProviderID :: identity
  she_HermesID :: address
  she_ChannelAddress :: address
  she_Time :: nat
  she_Promise :: promise
  she_Beneficiary :: address
  she_Amount :: int
  she_Fees :: int
  she_TotalSettled :: "int option"

text \<open>
  What the \<^verbatim>\<open>select\<close> of the waiting goroutine receives first: the stop signal, a
  closed sink, a \<^verbatim>\<open>nil\<close> event, a confirmation, or the timer.
\<close>

datatype waitOutcome = Stopped | SinkClosed | SinkNil | Confirmed promiseSettled | TimedOut

text \<open>
  The observable effects, in the order they happen: writes of the guard, calls of
  collaborators, the subscription and its cancellation, the submission of a transaction,
  the history entry.
\<close>

datatype event =
    SetSettling identity bool
  | CallFetchSettleFees int
  | CallGetHermesURL int address
  | CallUpdatePromiseFee promise int
  | CallCalculateHermesFee int address int
  | Subscribe int identity address
  | Cancel
  | Submit promise
  | CallFetchChannel int identity address
  | StoreHistory settlementHistoryEntry
  | CallHermesPayAndSettle promise

text \<open>
  \<^verbatim>\<open>crypto.ExchangeMessage\<close>: the promise it carries, the agreement and the hermes.
\<close>

record exchangeMessage =
  em_Promise :: promise
  em_AgreementID :: int
  em_HermesID :: address

text \<open>\<^verbatim>\<open>receivedPromise\<close>, the item of \<^verbatim>\<open>settleQueue\<close>.\<close>

record receivedPromise =
  rp_provider :: identity
  rp_hermesID :: address
  rp_promise :: promise
  rp_beneficiary :: address

text \<open>\<^verbatim>\<open>event.AppEventHermesPromise\<close>.\<close>

record appEventHermesPromise =
  apep_Promise :: promise
  apep_HermesID :: address
  apep_ProviderID :: identity

record world =
  currentState :: store
  trace :: "event list"

definition emit :: "event \<Rightarrow> world \<Rightarrow> world" where
  "emit e w = w\<lparr>trace := trace w @ [e]\<rparr>"

text \<open>
  The collaborators (section 6 of the specification) and the configuration: what each
  call answers. \<open>waitResult\<close> is what the waiting goroutine's \<^verbatim>\<open>select\<close> receives.
\<close>

record env =
  FetchSettleFees :: "int \<Rightarrow> error + int"
  GetHermesURL :: "int \<Rightarrow> address \<Rightarrow> error + string"
  UpdatePromiseFee :: "string \<Rightarrow> promise \<Rightarrow> int \<Rightarrow> error + promise"
  CalculateHermesFee :: "int \<Rightarrow> address \<Rightarrow> int \<Rightarrow> error + int"
  SubscribeToPromiseSettledEvent :: "int \<Rightarrow> identity \<Rightarrow> address \<Rightarrow> error option"
  GetRegistrationStatus :: "int \<Rightarrow> identity \<Rightarrow> error + registrationStatus"
  channelGet :: "int \<Rightarrow> identity \<Rightarrow> address \<Rightarrow> hermesChannel option"
  channelFetch :: "int \<Rightarrow> identity \<Rightarrow> address \<Rightarrow> hermesChannel \<times> error option"
  GenerateProviderChannelID :: "identity \<Rightarrow> address \<Rightarrow> error + string"
  SettleAndRebalance :: "address \<Rightarrow> identity \<Rightarrow> promise \<Rightarrow> error option"
  TxSettleWithBeneficiary :: "identity \<Rightarrow> address \<Rightarrow> address \<Rightarrow> promise \<Rightarrow> error option"
  TxSettleIntoStake :: "address \<Rightarrow> identity \<Rightarrow> promise \<Rightarrow> error option"
  TxPayAndSettle :: "address \<Rightarrow> identity \<Rightarrow> promise \<Rightarrow> address \<Rightarrow> nat list \<Rightarrow> error option"
  GetChannelAddress :: "int \<Rightarrow> identity \<Rightarrow> error + address"
  GetActiveHermes :: "int \<Rightarrow> error + address"
  GetMystAddress :: "int \<Rightarrow> error + address"
  GetMystBalance :: "int \<Rightarrow> address \<Rightarrow> address \<Rightarrow> error + int"
  rnd :: "(nat list \<times> int) option"
  CreatePromise :: "address \<Rightarrow> int \<Rightarrow> int \<Rightarrow> nat list \<Rightarrow> identity \<Rightarrow> error + promise"
  CreateExchangeMessageWithPromise :: "int \<Rightarrow> int \<Rightarrow> promise \<Rightarrow> address \<Rightarrow> identity \<Rightarrow> error + exchangeMessage"
  HermesPayAndSettle :: "nat list \<Rightarrow> exchangeMessage \<Rightarrow> identity \<Rightarrow> error option"
  GenerateProviderChannelIDForPayAndSettle :: "identity \<Rightarrow> address \<Rightarrow> error + string"
  promiseGet :: "int \<Rightarrow> string \<Rightarrow> error + string \<times> promise"
  SignPayload :: "address \<Rightarrow> int \<Rightarrow> string \<Rightarrow> int \<Rightarrow> nat list \<Rightarrow> identity \<Rightarrow> error + nat list"
  waitResult :: waitOutcome
  now :: nat
  Threshold :: float64
  L1ChainID :: int
  L2ChainID :: int
  Myst :: nat

section \<open>The settlement state store\<close>

text \<open>Line 774: \<^verbatim>\<open>isSettling\<close>, one critical section under the read lock.\<close>

definition isSettling :: "store \<Rightarrow> identity \<Rightarrow> bool" where
  "isSettling cs i = (case cs i of None \<Rightarrow> False | Some v \<Rightarrow> settleInProgress v)"

text \<open>
  Line 785: \<^verbatim>\<open>setSettling\<close>, one critical section under the write lock. Reading a
  missing key of a Go map gives the zero value, so the entry is created.
\<close>

definition setSettling :: "store \<Rightarrow> identity \<Rightarrow> bool \<Rightarrow> store" where
  "setSettling cs i settling =
     (let v = (case cs i of None \<Rightarrow> \<lparr>settleInProgress = False, registered = False\<rparr> | Some v \<Rightarrow> v)
      in cs(i \<mapsto> v\<lparr>settleInProgress := settling\<rparr>))"

definition setSettlingW :: "identity \<Rightarrow> bool \<Rightarrow> world \<Rightarrow> world" where
  "setSettlingW i settling w =
     emit (SetSettling i settling) (w\<lparr>currentState := setSettling (currentState w) i settling\<rparr>)"

text \<open>Line 166: \<^verbatim>\<open>loadInitialState\<close>.\<close>

definition loadInitialState :: "env \<Rightarrow> int \<Rightarrow> identity \<Rightarrow> world \<Rightarrow> error option \<times> world" where
  "loadInitialState e chainID i w =
     (case currentState w i of
        Some _ \<Rightarrow> (None, w)
      | None \<Rightarrow>
          (case GetRegistrationStatus e chainID i of
             Inl err \<Rightarrow> (Some (Wrapped ''could not check registration status'' err), w)
           | Inr status \<Rightarrow>
               if status \<noteq> Registered then (None, w)
               else (None, w\<lparr>currentState := (currentState w)
                       (i \<mapsto> \<lparr>settleInProgress = False, registered = True\<rparr>)\<rparr>)))"

section \<open>The fee updater\<close>

text \<open>
  Line 437: \<^verbatim>\<open>updatePromiseWithLatestFee\<close>. \<^verbatim>\<open>getHermesCaller\<close> (line 807) wraps the
  error of the URL lookup once more.
\<close>

definition updatePromiseWithLatestFee :: "env \<Rightarrow> address \<Rightarrow> promise \<Rightarrow> world \<Rightarrow> (error + promise) \<times> world" where
  "updatePromiseWithLatestFee e hermesID p w =
     (let w1 = emit (CallFetchSettleFees (ChainID p)) w in
      case FetchSettleFees e (ChainID p) of
        Inl err \<Rightarrow> (Inl (Wrapped ''could not fetch settle fees'' err), w1)
      | Inr fee \<Rightarrow>
          (let w2 = emit (CallGetHermesURL (ChainID p) hermesID) w1 in
           case GetHermesURL e (ChainID p) hermesID of
             Inl err \<Rightarrow>
               (Inl (Wrapped ''could not fetch settle fees'' (Wrapped ''could not get hermes URL'' err)), w2)
           | Inr addr \<Rightarrow>
               (let w3 = emit (CallUpdatePromiseFee p fee) w2 in
                case UpdatePromiseFee e addr p fee of
                  Inl err \<Rightarrow> (Inl (Wrapped ''could not update promise fee'' err), w3)
                | Inr updatedPromise \<Rightarrow> (Inr (updatedPromise\<lparr>R := R p\<rparr>), w3))))"

section \<open>The settlement executor\<close>

text \<open>
  Lines 724 to 752, the confirmation branch of the waiting goroutine: the channel is
  fetched again and the history entry is stored; the errors of the three calls are only
  logged. A failed \<^verbatim>\<open>GenerateProviderChannelID\<close> leaves the empty channel id behind, and
  the channel that \<^verbatim>\<open>Fetch\<close> returns is read whether or not it comes with an error.
\<close>

definition recordSettlement ::
    "env \<Rightarrow> identity \<Rightarrow> address \<Rightarrow> promise \<Rightarrow> promise \<Rightarrow> address \<Rightarrow> promiseSettled \<Rightarrow> world \<Rightarrow> world" where
  "recordSettlement e provider hermesID p updatedPromise beneficiary info w =
     (let channelID = (case GenerateProviderChannelID e provider hermesID of Inl _ \<Rightarrow> [] | Inr c \<Rightarrow> c);
          w1 = emit (CallFetchChannel (ChainID p) provider hermesID) w;
          ch = fst (channelFetch e (ChainID p) provider hermesID);
          totalSettled = Settled ch;
          she = \<lparr>she_TxHash = TxHash info, she_ProviderID = provider, she_HermesID = hermesID,
                 she_ChannelAddress = channelID, she_Time = now e, she_Promise = updatedPromise,
                 she_Beneficiary = beneficiary, she_Amount = AmountSentToBeneficiary info,
                 she_Fees = Fees info, she_TotalSettled = totalSettled\<rparr>
      in emit (StoreHistory she) w1)"

text \<open>
  The three deferred calls of the goroutine (lines 711 to 713), in the order they run:
  \<^verbatim>\<open>close(errCh)\<close>, \<^verbatim>\<open>setSettling(provider, false)\<close>, \<^verbatim>\<open>cancel()\<close>.
\<close>

definition releaseAndCancel :: "identity \<Rightarrow> world \<Rightarrow> world" where
  "releaseAndCancel provider w = emit Cancel (setSettlingW provider False w)"

text \<open>
  Lines 710 to 762 and 771: the waiting goroutine, run to its end, and what the caller
  receives from \<^verbatim>\<open>errCh\<close>. \<open>receiving\<close> tells whether the caller is at
  \<^verbatim>\<open>return <-errCh\<close>; after a failed submission it is not, and a goroutine whose timer
  fires then stays in \<^verbatim>\<open>errCh <- ErrSettleTimeout\<close>, so its deferred calls never run.
  The world returned is the one the goroutine leaves behind.
\<close>

definition awaitSettlement ::
    "env \<Rightarrow> identity \<Rightarrow> address \<Rightarrow> promise \<Rightarrow> promise \<Rightarrow> address \<Rightarrow> bool \<Rightarrow> world \<Rightarrow> error option \<times> world" where
  "awaitSettlement e provider hermesID p updatedPromise beneficiary receiving w =
     (case waitResult e of
        Stopped \<Rightarrow> (None, releaseAndCancel provider w)
      | SinkClosed \<Rightarrow> (None, releaseAndCancel provider w)
      | SinkNil \<Rightarrow> (None, releaseAndCancel provider w)
      | Confirmed info \<Rightarrow>
          (None, releaseAndCancel provider
                   (recordSettlement e provider hermesID p updatedPromise beneficiary info w))
      | TimedOut \<Rightarrow>
          if receiving then (Some ErrSettleTimeout, releaseAndCancel provider w)
          else (None, w))"

text \<open>
  Lines 668 to 707 of \<^verbatim>\<open>settle\<close>, between taking the guard and starting the goroutine:
  the fee update, the amount, the fee check and the subscription. Every failure releases
  the guard.
\<close>

definition settlePrepare ::
    "env \<Rightarrow> identity \<Rightarrow> address \<Rightarrow> promise \<Rightarrow> int option \<Rightarrow> world \<Rightarrow> (error + promise) \<times> world" where
  "settlePrepare e provider hermesID p settled w =
     (case updatePromiseWithLatestFee e hermesID p w of
        (Inl err, w1) \<Rightarrow> (Inl err, setSettlingW provider False w1)
      | (Inr updatedPromise, w1) \<Rightarrow>
          (let settled' = (case settled of None \<Rightarrow> 0 | Some s \<Rightarrow> s);
               amountToSettle = Amount updatedPromise - settled';
               w2 = emit (CallCalculateHermesFee (ChainID p) hermesID amountToSettle) w1
           in case CalculateHermesFee e (ChainID p) hermesID amountToSettle of
                Inl err \<Rightarrow> (Inl err, setSettlingW provider False w2)
              | Inr fee \<Rightarrow>
                  (let totalFees = fee + Fee updatedPromise in
                   if amountToSettle < totalFees
                   then (Inl (ErrFeesExceedEarnings amountToSettle totalFees),
                         setSettlingW provider False w2)
                   else
                     (let w3 = emit (Subscribe (ChainID p) provider hermesID) w2 in
                      case SubscribeToPromiseSettledEvent e (ChainID p) provider hermesID of
                        Some err \<Rightarrow> (Inl err, setSettlingW provider False w3)
                      | None \<Rightarrow> (Inr updatedPromise, w3)))))"

text \<open>
  Line 653: \<^verbatim>\<open>settle\<close>, run from the call to the end of its goroutine: the error the
  caller gets and the world that is left.
\<close>

definition settle ::
    "env \<Rightarrow> (promise \<Rightarrow> error option) \<Rightarrow> identity \<Rightarrow> address \<Rightarrow> promise \<Rightarrow> address \<Rightarrow> int option
       \<Rightarrow> world \<Rightarrow> error option \<times> world" where
  "settle e settleFunc provider hermesID p beneficiary settled w =
     (if isSettling (currentState w) provider then (Some ErrAlreadySettling, w)
      else
        case settlePrepare e provider hermesID p settled (setSettlingW provider True w) of
          (Inl err, w1) \<Rightarrow> (Some err, w1)
        | (Inr updatedPromise, w1) \<Rightarrow>
            (let w2 = emit (Submit updatedPromise) w1 in
             case settleFunc updatedPromise of
               Some err \<Rightarrow>
                 (Some err,
                  snd (awaitSettlement e provider hermesID p updatedPromise beneficiary False
                         (emit Cancel w2)))
             | None \<Rightarrow> awaitSettlement e provider hermesID p updatedPromise beneficiary True w2))"

subsection \<open>The entry points\<close>

text \<open>
  \<^verbatim>\<open>hex.DecodeString\<close>: two hexadecimal digits a byte; an odd length or another
  character is an error.
\<close>

definition fromHexChar :: "char \<Rightarrow> nat option" where
  "fromHexChar c =
     (let n = (of_char c :: nat) in
      if 48 \<le> n \<and> n \<le> 57 then Some (n - 48)
      else if 97 \<le> n \<and> n \<le> 102 then Some (n - 97 + 10)
      else if 65 \<le> n \<and> n \<le> 70 then Some (n - 65 + 10)
      else None)"

fun hexDecodeString :: "string \<Rightarrow> error + nat list" where
  "hexDecodeString [] = Inr []"
| "hexDecodeString [c] = Inl ErrHexDecode"
| "hexDecodeString (a # b # cs) =
     (case (fromHexChar a, fromHexChar b) of
        (Some x, Some y) \<Rightarrow>
          (case hexDecodeString cs of Inl err \<Rightarrow> Inl err | Inr bs \<Rightarrow> Inr ((x * 16 + y) # bs))
      | _ \<Rightarrow> Inl ErrHexDecode)"

text \<open>Line 385: \<^verbatim>\<open>ForceSettle\<close>.\<close>

definition ForceSettle :: "env \<Rightarrow> int \<Rightarrow> identity \<Rightarrow> address \<Rightarrow> world \<Rightarrow> error option \<times> world" where
  "ForceSettle e chainID providerID hermesID w =
     (case channelGet e chainID providerID hermesID of
        None \<Rightarrow> (Some ErrNothingToSettle, w)
      | Some channel \<Rightarrow>
          (case hexDecodeString (lastPromiseR channel) of
             Inl err \<Rightarrow> (Some (Wrapped ''could not decode R'' err), w)
           | Inr hexR \<Rightarrow>
               settle e (\<lambda>p. SettleAndRebalance e hermesID providerID p) providerID hermesID
                 ((lastPromise channel)\<lparr>R := hexR\<rparr>) (Beneficiary channel) (Settled channel) w))"

text \<open>Line 410: \<^verbatim>\<open>SettleWithBeneficiary\<close>.\<close>

definition SettleWithBeneficiary ::
    "env \<Rightarrow> int \<Rightarrow> identity \<Rightarrow> address \<Rightarrow> address \<Rightarrow> world \<Rightarrow> error option \<times> world" where
  "SettleWithBeneficiary e chainID providerID beneficiary hermesID w =
     (case channelGet e chainID providerID hermesID of
        None \<Rightarrow> (Some ErrNothingToSettle, w)
      | Some channel \<Rightarrow>
          (case hexDecodeString (lastPromiseR channel) of
             Inl err \<Rightarrow> (Some (Wrapped ''could not decode R'' err), w)
           | Inr hexR \<Rightarrow>
               settle e (\<lambda>p. TxSettleWithBeneficiary e providerID beneficiary hermesID p) providerID
                 hermesID ((lastPromise channel)\<lparr>R := hexR\<rparr>) beneficiary (Settled channel) w))"

text \<open>Line 358: \<^verbatim>\<open>SettleIntoStake\<close>.\<close>

definition SettleIntoStake :: "env \<Rightarrow> int \<Rightarrow> identity \<Rightarrow> address \<Rightarrow> world \<Rightarrow> error option \<times> world" where
  "SettleIntoStake e chainID providerID hermesID w =
     (case channelGet e chainID providerID hermesID of
        None \<Rightarrow> (Some ErrNothingToSettle, w)
      | Some channel \<Rightarrow>
          (case hexDecodeString (lastPromiseR channel) of
             Inl err \<Rightarrow> (Some (Wrapped ''could not decode R'' err), w)
           | Inr hexR \<Rightarrow>
               settle e (\<lambda>p. TxSettleIntoStake e hermesID providerID p) providerID hermesID
                 ((lastPromise channel)\<lparr>R := hexR\<rparr>) (Beneficiary channel) (Settled channel) w))"

section \<open>The trigger for automatic settlement\<close>

text \<open>Line 314: \<^verbatim>\<open>initiateSettling\<close>; the result is the item sent to \<^verbatim>\<open>settleQueue\<close>, if any.\<close>

definition initiateSettling :: "hermesChannel \<Rightarrow> receivedPromise option" where
  "initiateSettling channel =
     (case hexDecodeString (lastPromiseR channel) of
        Inl _ \<Rightarrow> None
      | Inr hexR \<Rightarrow>
          Some \<lparr>rp_provider = Identity channel, rp_hermesID = HermesID channel,
                rp_promise = (lastPromise channel)\<lparr>R := hexR\<rparr>,
                rp_beneficiary = Beneficiary channel\<rparr>)"

text \<open>
  Line 271: \<^verbatim>\<open>handleHermesPromiseReceived\<close>, the only caller of \<^verbatim>\<open>needsSettling\<close>. It
  changes no state of the settler; the result is the item it sends to the queue, if any.
\<close>

definition handleHermesPromiseReceived :: "env \<Rightarrow> appEventHermesPromise \<Rightarrow> world \<Rightarrow> receivedPromise option" where
  "handleHermesPromiseReceived e apep w =
     (let i = apep_ProviderID apep in
      case currentState w (apep_ProviderID apep) of
        None \<Rightarrow> None
      | Some s \<Rightarrow>
          if \<not> registered s then None
          else
            (case (case channelGet e (ChainID (apep_Promise apep)) i (apep_HermesID apep) of
                     Some hc \<Rightarrow> Some hc
                   | None \<Rightarrow>
                       (case channelFetch e (ChainID (apep_Promise apep)) i (apep_HermesID apep) of
                          (hc, Some err) \<Rightarrow> if \<not> isNotFound err then None else Some hc
                        | (hc, None) \<Rightarrow> Some hc)) of
               None \<Rightarrow> None
             | Some channel \<Rightarrow>
                 if needsSettling (Myst e) s (Threshold e) channel then initiateSettling channel
                 else None))"

section \<open>The withdrawal executor\<close>

text \<open>
  Lines 564 to 584 and 593: the waiting goroutine of \<^verbatim>\<open>payAndSettle\<close> and what the
  caller receives. Its deferred calls are \<^verbatim>\<open>close(errCh)\<close> and \<^verbatim>\<open>cancel()\<close>; it writes
  no history and does not touch the guard.
\<close>

definition awaitPayAndSettle :: "env \<Rightarrow> bool \<Rightarrow> world \<Rightarrow> error option \<times> world" where
  "awaitPayAndSettle e receiving w =
     (case waitResult e of
        TimedOut \<Rightarrow> if receiving then (Some ErrSettleTimeout, emit Cancel w) else (None, w)
      | _ \<Rightarrow> (None, emit Cancel w))"

text \<open>Line 536: \<^verbatim>\<open>payAndSettle\<close>.\<close>

definition payAndSettle ::
    "env \<Rightarrow> (promise \<Rightarrow> error option) \<Rightarrow> identity \<Rightarrow> address \<Rightarrow> promise \<Rightarrow> address \<Rightarrow> int
       \<Rightarrow> world \<Rightarrow> error option \<times> world" where
  "payAndSettle e settleFunc provider hermesID p beneficiary withdrawalAmount w =
     (case updatePromiseWithLatestFee e hermesID p w of
        (Inl err, w1) \<Rightarrow> (Some err, w1)
      | (Inr updatedPromise, w1) \<Rightarrow>
          if withdrawalAmount < Fee updatedPromise
          then (Some (ErrAmountTooSmall (Fee updatedPromise) withdrawalAmount), w1)
          else
            (let w2 = emit (Subscribe (ChainID p) provider hermesID) w1 in
             case SubscribeToPromiseSettledEvent e (ChainID p) provider hermesID of
               Some err \<Rightarrow> (Some err, w2)
             | None \<Rightarrow>
                 (let w3 = emit (Submit updatedPromise) w2 in
                  case settleFunc updatedPromise of
                    Some err \<Rightarrow> (Some err, snd (awaitPayAndSettle e False (emit Cancel w3)))
                  | None \<Rightarrow> awaitPayAndSettle e True w3)))"

text \<open>Line 635: \<^verbatim>\<open>getWithdrawalAmount\<close>.\<close>

definition getWithdrawalAmount :: "env \<Rightarrow> int \<Rightarrow> address \<Rightarrow> error + int" where
  "getWithdrawalAmount e chainID consumerChannelAddress =
     (case GetMystAddress e chainID of
        Inl err \<Rightarrow> Inl (Wrapped ''could not get myst address'' err)
      | Inr mystAddr \<Rightarrow>
          (case GetMystBalance e chainID mystAddr consumerChannelAddress of
             Inl err \<Rightarrow> Inl (Wrapped ''could not get myst balance'' err)
           | Inr bal \<Rightarrow>
               if bal \<le> 0 then Inl (ErrNothingToWithdraw consumerChannelAddress bal)
               else Inr bal))"

text \<open>
  Line 596: \<^verbatim>\<open>issueSelfPromise\<close>. \<open>rnd\<close> gives the secret and the agreement id that
  \<^verbatim>\<open>generateR\<close> and \<^verbatim>\<open>generateAgreementID\<close> draw; the hashlock of the invoice is taken
  to be the secret's.
\<close>

definition issueSelfPromise :: "env \<Rightarrow> int \<Rightarrow> int \<Rightarrow> identity \<Rightarrow> address \<Rightarrow> address \<Rightarrow> error + exchangeMessage" where
  "issueSelfPromise e chainID amount providerID consumerChannelAddress hermesAddress =
     (case rnd e of
        None \<Rightarrow> Inl NilPointerPanic
      | Some (r, agreementID) \<Rightarrow>
          (case CreatePromise e consumerChannelAddress chainID amount r providerID of
             Inl err \<Rightarrow> Inl (Wrapped ''could not create promise'' err)
           | Inr p \<Rightarrow>
               (case CreateExchangeMessageWithPromise e chainID agreementID (p\<lparr>R := r\<rparr>)
                       hermesAddress providerID of
                  Inl err \<Rightarrow> Inl (Wrapped ''could not get create exchange message'' err)
                | Inr msg \<Rightarrow> Inr msg)))"

text \<open>Lines 467 to 533: the body of \<^verbatim>\<open>withdraw\<close> after the guard is taken.\<close>

definition withdrawGuarded :: "env \<Rightarrow> int \<Rightarrow> identity \<Rightarrow> address \<Rightarrow> address \<Rightarrow> world \<Rightarrow> error option \<times> world" where
  "withdrawGuarded e chainID providerID hermesID beneficiary w =
     (if chainID \<noteq> L2ChainID e then (Some (ErrWrongChain (L2ChainID e) chainID), w)
      else
        case GetChannelAddress e chainID providerID of
          Inl err \<Rightarrow> (Some (Wrapped ''could not generate channel address'' err), w)
        | Inr consumerChannelAddress \<Rightarrow>
        case GetActiveHermes e chainID of
          Inl err \<Rightarrow> (Some (Wrapped ''could not get active hermes address'' err), w)
        | Inr hermesAddress \<Rightarrow>
        case getWithdrawalAmount e chainID consumerChannelAddress of
          Inl err \<Rightarrow> (Some err, w)
        | Inr amountToWithdraw \<Rightarrow>
        case issueSelfPromise e chainID amountToWithdraw providerID consumerChannelAddress hermesAddress of
          Inl err \<Rightarrow> (Some err, w)
        | Inr msg \<Rightarrow>
        let w1 = emit (CallHermesPayAndSettle (em_Promise msg)) w in
        case HermesPayAndSettle e (R (em_Promise msg)) msg providerID of
          Some err \<Rightarrow> (Some (Wrapped ''could not call hermes pay and settle'' err), w1)
        | None \<Rightarrow>
        case GenerateProviderChannelIDForPayAndSettle e providerID hermesAddress of
          Inl err \<Rightarrow> (Some (Wrapped ''could not get channel id for pay and settle'' err), w1)
        | Inr chid \<Rightarrow>
        case promiseGet e chainID chid of
          Inl err \<Rightarrow> (Some err, w1)
        | Inr (hexR, stored) \<Rightarrow>
        case hexDecodeString hexR of
          Inl err \<Rightarrow> (Some (Wrapped ''could not decode R'' err), w1)
        | Inr decodedR \<Rightarrow>
        case SignPayload e beneficiary (L1ChainID e) chid (Amount stored) (R (em_Promise msg)) providerID of
          Inl err \<Rightarrow> (Some (Wrapped ''could not sign pay and settle payload'' err), w1)
        | Inr signature \<Rightarrow>
            payAndSettle e (\<lambda>p. TxPayAndSettle e hermesID providerID p beneficiary signature)
              providerID hermesID (stored\<lparr>R := decodedR\<rparr>) beneficiary amountToWithdraw w1)"

text \<open>
  Line 458: \<^verbatim>\<open>withdraw\<close>. The release of the guard is deferred, so it runs on every
  way out of the guarded part.
\<close>

definition withdraw :: "env \<Rightarrow> int \<Rightarrow> identity \<Rightarrow> address \<Rightarrow> address \<Rightarrow> world \<Rightarrow> error option \<times> world" where
  "withdraw e chainID providerID hermesID beneficiary w =
     (if isSettling (currentState w) providerID then (Some ErrAlreadySettling, w)
      else
        case withdrawGuarded e chainID providerID hermesID beneficiary (setSettlingW providerID True w) of
          (res, w1) \<Rightarrow> (res, setSettlingW providerID False w1))"

section \<open>Interleavings of concurrent settlements\<close>

text \<open>
  \<^verbatim>\<open>isSettling\<close> and \<^verbatim>\<open>setSettling\<close> each take the lock, so each is one atomic step;
  nothing ties the two together. A call of \<^verbatim>\<open>settle\<close> is a caller and, once line 710
  is reached, its goroutine. The caller's steps are the check of line 661, the mark of line
  665, the preparation of lines 668 to 707, the submission of line 764 and the receive of
  line 771; the goroutine's are its \<^verbatim>\<open>select\<close>, the send of line 759 (a rendezvous with
  the caller's receive, \<^verbatim>\<open>errCh\<close> being unbuffered) and the three deferred calls.
\<close>

datatype callerPc = AtCheck | AtMark | AtPrepare | AtSubmit promise | AtReceive | Returned "error option"

datatype waiterPc = NotStarted | AtSelect promise | AtSend | AtClose | AtRelease | AtCancel | Exited

record task =
  t_settleFunc :: "promise \<Rightarrow> error option"
  t_provider :: identity
  t_hermesID :: address
  t_promise :: promise
  t_beneficiary :: address
  t_settled :: "int option"
  callerPc :: callerPc
  waiterPc :: waiterPc
  errChClosed :: bool

definition newTask :: "(promise \<Rightarrow> error option) \<Rightarrow> identity \<Rightarrow> address \<Rightarrow> promise \<Rightarrow> address \<Rightarrow> int option \<Rightarrow> task" where
  "newTask settleFunc provider hermesID p beneficiary settled =
     \<lparr>t_settleFunc = settleFunc, t_provider = provider, t_hermesID = hermesID, t_promise = p,
      t_beneficiary = beneficiary, t_settled = settled,
      callerPc = AtCheck, waiterPc = NotStarted, errChClosed = False\<rparr>"

text \<open>One step of the caller; \<open>None\<close> when it has returned or is blocked on \<^verbatim>\<open>errCh\<close>.\<close>

definition callerStep :: "env \<Rightarrow> task \<Rightarrow> world \<Rightarrow> (task \<times> world) option" where
  "callerStep e t w =
     (case callerPc t of
        AtCheck \<Rightarrow>
          if isSettling (currentState w) (t_provider t)
          then Some (t\<lparr>callerPc := Returned (Some ErrAlreadySettling)\<rparr>, w)
          else Some (t\<lparr>callerPc := AtMark\<rparr>, w)
      | AtMark \<Rightarrow> Some (t\<lparr>callerPc := AtPrepare\<rparr>, setSettlingW (t_provider t) True w)
      | AtPrepare \<Rightarrow>
          (case settlePrepare e (t_provider t) (t_hermesID t) (t_promise t) (t_settled t) w of
             (Inl err, w1) \<Rightarrow> Some (t\<lparr>callerPc := Returned (Some err)\<rparr>, w1)
           | (Inr updatedPromise, w1) \<Rightarrow>
               Some (t\<lparr>callerPc := AtSubmit updatedPromise, waiterPc := AtSelect updatedPromise\<rparr>, w1))
      | AtSubmit updatedPromise \<Rightarrow>
          (case t_settleFunc t updatedPromise of
             Some err \<Rightarrow>
               Some (t\<lparr>callerPc := Returned (Some err)\<rparr>, emit Cancel (emit (Submit updatedPromise) w))
           | None \<Rightarrow> Some (t\<lparr>callerPc := AtReceive\<rparr>, emit (Submit updatedPromise) w))
      | AtReceive \<Rightarrow> if errChClosed t then Some (t\<lparr>callerPc := Returned None\<rparr>, w) else None
      | Returned _ \<Rightarrow> None)"

text \<open>
  One step of the goroutine; \<open>None\<close> when it has not started, has exited, or is blocked
  in the send with no receiver. The send hands \<^verbatim>\<open>ErrSettleTimeout\<close> to the caller, which
  returns it.
\<close>

definition waiterStep :: "env \<Rightarrow> task \<Rightarrow> world \<Rightarrow> (task \<times> world) option" where
  "waiterStep e t w =
     (case waiterPc t of
        NotStarted \<Rightarrow> None
      | AtSelect updatedPromise \<Rightarrow>
          (case waitResult e of
             TimedOut \<Rightarrow> Some (t\<lparr>waiterPc := AtSend\<rparr>, w)
           | Confirmed info \<Rightarrow>
               Some (t\<lparr>waiterPc := AtClose\<rparr>,
                     recordSettlement e (t_provider t) (t_hermesID t) (t_promise t) updatedPromise
                       (t_beneficiary t) info w)
           | _ \<Rightarrow> Some (t\<lparr>waiterPc := AtClose\<rparr>, w))
      | AtSend \<Rightarrow>
          if callerPc t = AtReceive
          then Some (t\<lparr>callerPc := Returned (Some ErrSettleTimeout), waiterPc := AtClose\<rparr>, w)
          else None
      | AtClose \<Rightarrow> Some (t\<lparr>errChClosed := True, waiterPc := AtRelease\<rparr>, w)
      | AtRelease \<Rightarrow> Some (t\<lparr>waiterPc := AtCancel\<rparr>, setSettlingW (t_provider t) False w)
      | AtCancel \<Rightarrow> Some (t\<lparr>waiterPc := Exited\<rparr>, emit Cancel w)
      | Exited \<Rightarrow> None)"

datatype role = Caller | Waiter

record system =
  tasks :: "task list"
  shared :: world

text \<open>A scheduler's choice: which call, and which of its two threads. A thread that cannot move stays.\<close>

definition step :: "env \<Rightarrow> nat \<times> role \<Rightarrow> system \<Rightarrow> system" where
  "step e a s =
     (case a of
        (i, r) \<Rightarrow>
          if i < length (tasks s) then
            (case (case r of Caller \<Rightarrow> callerStep e (tasks s ! i) (shared s)
                           | Waiter \<Rightarrow> waiterStep e (tasks s ! i) (shared s)) of
               None \<Rightarrow> s
             | Some (t', w') \<Rightarrow> \<lparr>tasks = (tasks s)[i := t'], shared = w'\<rparr>)
          else s)"

fun run :: "env \<Rightarrow> (nat \<times> role) list \<Rightarrow> system \<Rightarrow> system" where
  "run e [] s = s"
| "run e (a # as) s = run e as (step e a s)"

text \<open>
  The schedule that lets one call run alone: the caller up to its receive, the goroutine
  to its end, the caller's receive.
\<close>

definition alone :: "(nat \<times> role) list" where
  "alone =
     [(0, Caller), (0, Caller), (0, Caller), (0, Caller),
      (0, Waiter), (0, Waiter), (0, Waiter), (0, Waiter), (0, Waiter),
      (0, Caller)]"

section \<open>A concrete environment\<close>

text \<open>
  One provider \<open>''p''\<close> with a channel at the hermes \<open>''h''\<close>, whose last promise is
  worth 100. The transactor's fee is 10, the hermes' fee is 50, every collaborator
  answers, the hermes returns the promise re-signed without its secret, and no
  confirmation arrives before the timer fires.
\<close>

definition examplePromise :: promise where
  "examplePromise = \<lparr>ChainID = 137, Amount = 100, Fee = 0, R = [171, 205], Signature = [1]\<rparr>"

definition exampleChannel :: hermesChannel where
  "exampleChannel =
     \<lparr>Identity = ''p'', HermesID = ''h'', Beneficiary = ''b'', Stake = 0, Settled = None,
      UnsettledBalance = 100, availableBalance = 0, balance = 0, lastPromiseR = ''abcd'',
      lastPromise = examplePromise\<lparr>R := []\<rparr>\<rparr>"

definition exampleEnv :: env where
  "exampleEnv =
     \<lparr>FetchSettleFees = (\<lambda>_. Inr 10),
      GetHermesURL = (\<lambda>_ _. Inr ''https://hermes''),
      UpdatePromiseFee = (\<lambda>_ p fee. Inr (p\<lparr>Fee := fee, R := [], Signature := [2]\<rparr>)),
      CalculateHermesFee = (\<lambda>_ _ _. Inr 50),
      SubscribeToPromiseSettledEvent = (\<lambda>_ _ _. None),
      GetRegistrationStatus = (\<lambda>_ _. Inr Registered),
      channelGet = (\<lambda>_ i h. if i = ''p'' \<and> h = ''h'' then Some exampleChannel else None),
      channelFetch = (\<lambda>_ _ _. (exampleChannel, None)),
      GenerateProviderChannelID = (\<lambda>_ _. Inr ''c0''),
      SettleAndRebalance = (\<lambda>_ _ _. None),
      TxSettleWithBeneficiary = (\<lambda>_ _ _ _. None),
      TxSettleIntoStake = (\<lambda>_ _ _. None),
      TxPayAndSettle = (\<lambda>_ _ _ _ _. None),
      GetChannelAddress = (\<lambda>_ _. Inr ''cc''),
      GetActiveHermes = (\<lambda>_. Inr ''h''),
      GetMystAddress = (\<lambda>_. Inr ''myst''),
      GetMystBalance = (\<lambda>_ _ _. Inr 100),
      rnd = Some ([7, 7], 42),
      CreatePromise = (\<lambda>_ c a r _. Inr \<lparr>ChainID = c, Amount = a, Fee = 0, R = [], Signature = [3]\<rparr>),
      CreateExchangeMessageWithPromise =
        (\<lambda>_ a p h _. Inr \<lparr>em_Promise = p, em_AgreementID = a, em_HermesID = h\<rparr>),
      HermesPayAndSettle = (\<lambda>_ _ _. None),
      GenerateProviderChannelIDForPayAndSettle = (\<lambda>_ _. Inr ''c1''),
      promiseGet = (\<lambda>_ _. Inr (''0707'', examplePromise\<lparr>R := []\<rparr>)),
      SignPayload = (\<lambda>_ _ _ _ _ _. Inr [4]),
      waitResult = TimedOut,
      now = 0,
      Threshold = Float64 1 (- 1),
      L1ChainID = 1,
      L2ChainID = 137,
      Myst = 1000000000000000000\<rparr>"

definition emptyWorld :: world where
  "emptyWorld = \<lparr>currentState = Map.empty, trace = []\<rparr>"

definition exampleTask :: task where
  "exampleTask = newTask (\<lambda>p. SettleAndRebalance exampleEnv ''h'' ''p'' p) ''p'' ''h'' examplePromise ''b'' None"

text \<open>A world in which a settlement of \<open>''p''\<close> is in progress.\<close>

definition busyWorld :: world where
  "busyWorld =
     \<lparr>currentState = [''p'' \<mapsto> \<lparr>settleInProgress = True, registered = True\<rparr>], trace = []\<rparr>"

section \<open>What every interleaving of a stopped settlement keeps\<close>

fun isStoreHistory :: "event \<Rightarrow> bool" where
  "isStoreHistory (StoreHistory _) = True"
| "isStoreHistory _ = False"

text \<open>The parameters of a call never change while it runs.\<close>

definition sameCall :: "task \<Rightarrow> task \<Rightarrow> bool" where
  "sameCall t0 t =
     (t_settleFunc t = t_settleFunc t0 \<and> t_provider t = t_provider t0 \<and> t_hermesID t = t_hermesID t0
      \<and> t_promise t = t_promise t0 \<and> t_beneficiary t = t_beneficiary t0 \<and> t_settled t = t_settled t0)"

text \<open>
  The states a single call can be in when its preparation and its submission succeed and
  its goroutine receives the stop signal: the trace only grows and gains no history entry;
  the goroutine is never in the send; the store is the initial one until the caller has
  marked the guard, the marked one from then until the goroutine's deferred release, and
  the marked and released one afterwards; once the goroutine has exited the subscription is
  cancelled; a caller that has returned has returned \<^verbatim>\<open>nil\<close>.
\<close>

definition stoppedInv :: "task \<Rightarrow> world \<Rightarrow> promise \<Rightarrow> task \<Rightarrow> world \<Rightarrow> bool" where
  "stoppedInv t0 w0 up t sh =
     (sameCall t0 t
      \<and> length (trace w0) \<le> length (trace sh)
      \<and> take (length (trace w0)) (trace sh) = trace w0
      \<and> \<not> list_ex isStoreHistory (drop (length (trace w0)) (trace sh))
      \<and> (case waiterPc t of
           NotStarted \<Rightarrow>
             \<not> errChClosed t
             \<and> ((callerPc t = AtCheck \<and> \<not> isSettling (currentState sh) (t_provider t)
                   \<and> currentState sh = currentState w0)
                  \<or> (callerPc t = AtMark \<and> currentState sh = currentState w0)
                  \<or> (callerPc t = AtPrepare
                      \<and> currentState sh = setSettling (currentState w0) (t_provider t) True))
         | AtSelect u \<Rightarrow>
             u = up \<and> callerPc t \<in> {AtSubmit up, AtReceive} \<and> \<not> errChClosed t
             \<and> currentState sh = setSettling (currentState w0) (t_provider t) True
         | AtSend \<Rightarrow> False
         | AtClose \<Rightarrow>
             callerPc t \<in> {AtSubmit up, AtReceive} \<and> \<not> errChClosed t
             \<and> currentState sh = setSettling (currentState w0) (t_provider t) True
         | AtRelease \<Rightarrow>
             callerPc t \<in> {AtSubmit up, AtReceive, Returned None}
             \<and> currentState sh = setSettling (currentState w0) (t_provider t) True
         | AtCancel \<Rightarrow>
             callerPc t \<in> {AtSubmit up, AtReceive, Returned None}
             \<and> currentState sh
                 = setSettling (setSettling (currentState w0) (t_provider t) True) (t_provider t) False
         | Exited \<Rightarrow>
             callerPc t \<in> {AtSubmit up, AtReceive, Returned None}
             \<and> currentState sh
                 = setSettling (setSettling (currentState w0) (t_provider t) True) (t_provider t) False
             \<and> Cancel \<in> set (drop (length (trace w0)) (trace sh))))"

section \<open>Concrete calls and schedules\<close>

text \<open>The example promise once the example hermes has re-signed it with the fee of 10.\<close>

definition updatedExample :: promise where
  "updatedExample = \<lparr>ChainID = 137, Amount = 100, Fee = 10, R = [171, 205], Signature = [2]\<rparr>"

text \<open>One call of \<^verbatim>\<open>settle\<close> for \<open>''p''\<close>, and two concurrent ones.\<close>

definition oneCall :: system where
  "oneCall = \<lparr>tasks = [exampleTask], shared = emptyWorld\<rparr>"

definition twoCalls :: system where
  "twoCalls = \<lparr>tasks = [exampleTask, exampleTask], shared = emptyWorld\<rparr>"

text \<open>The two callers alternate: each checks the guard before the other marks it.\<close>

definition raceSchedule :: "(nat \<times> role) list" where
  "raceSchedule =
     [(0, Caller), (1, Caller), (0, Caller), (1, Caller),
      (0, Caller), (1, Caller), (0, Caller), (1, Caller)]"

text \<open>
  The caller runs up to its receive; the goroutine's timer fires and it hands
  \<^verbatim>\<open>ErrSettleTimeout\<close> over. Its deferred calls have not run yet.
\<close>

definition timeoutSchedule :: "(nat \<times> role) list" where
  "timeoutSchedule = [(0, Caller), (0, Caller), (0, Caller), (0, Caller), (0, Waiter), (0, Waiter)]"

text \<open>
  The goroutine receives the stop signal and runs to its end before the caller submits.
\<close>

definition earlyStopSchedule :: "(nat \<times> role) list" where
  "earlyStopSchedule =
     [(0, Caller), (0, Caller), (0, Caller),
      (0, Waiter), (0, Waiter), (0, Waiter), (0, Waiter),
      (0, Caller), (0, Caller)]"

text \<open>
  The same, cut short after the goroutine has closed \<^verbatim>\<open>errCh\<close>: its deferred release
  has not run yet.
\<close>

definition midStopSchedule :: "(nat \<times> role) list" where
  "midStopSchedule = [(0, Caller), (0, Caller), (0, Caller), (0, Waiter), (0, Waiter)]"

section \<open>Properties of the decision policy\<close>

lemma roundNearestEven_fits: "bitLen m \<le> p \<Longrightarrow> roundNearestEven p m = (m, 0)"
  by (simp add: roundNearestEven_def)

lemma calculatedThreshold_half: "calculatedThreshold (Float64 1 (- 1)) x = truncHalf x"
proof -
  have fits: "bitLen (nat \<bar>x\<bar>) \<le> max 53 (max (bitLen (nat \<bar>x\<bar>)) 64)"
    by simp
  have "FloatMul (NewFloat (Float64 1 (- 1))) (SetInt x)
          = \<lparr>mant = sgn x * int (nat \<bar>x\<bar>), expo = - 1, prec = max 53 (max (bitLen (nat \<bar>x\<bar>)) 64)\<rparr>"
    using roundNearestEven_fits [OF fits]
    by (simp add: FloatMul_def NewFloat_def SetInt_def)
  then show ?thesis
    by (simp add: calculatedThreshold_def FloatInt_def truncHalf_def abs_mult sgn_mult)
qed

text \<open>
  When the exact product of the threshold's mantissa and the available balance fits the
  precision of the product, nothing is rounded, and the calculated threshold is the
  product of the threshold and the available balance truncated towards zero.
\<close>

lemma calculatedThreshold_exact:
  assumes "bitLen (nat \<bar>m * x\<bar>) \<le> max 64 (bitLen (nat \<bar>x\<bar>))"
  shows "calculatedThreshold (Float64 m e) x =
           (if 0 \<le> e then m * x * 2 ^ nat e else sgn (m * x) * (\<bar>m * x\<bar> div 2 ^ nat (- e)))"
proof -
  from assms have fits: "bitLen (nat \<bar>m * x\<bar>) \<le> max 53 (max (bitLen (nat \<bar>x\<bar>)) 64)"
    by (simp add: max_def split: if_splits)
  have "FloatMul (NewFloat (Float64 m e)) (SetInt x)
          = \<lparr>mant = m * x, expo = e, prec = max 53 (max (bitLen (nat \<bar>x\<bar>)) 64)\<rparr>"
    using roundNearestEven_fits [OF fits]
    by (simp add: FloatMul_def NewFloat_def SetInt_def Let_def mult_sgn_abs)
  then show ?thesis
    by (simp add: calculatedThreshold_def FloatInt_def)
qed

text \<open>
  Claim C2, as amended. \<^verbatim>\<open>needsSettling\<close> is a function of the state, the threshold and
  the channel: false if the identity is not registered; false if a settlement is in
  progress; false if the stake is zero and the unsettled balance is below one unit;
  otherwise, with the calculated threshold the integer part of the float product of the
  threshold and the available balance, false if the unsettled balance is below it, true if
  the balance is at most it, and false otherwise. For the threshold 0.5: with zero stake
  and less than one unit unsettled it is false whatever the other fields are; for a
  registered identity with no settlement in progress, zero stake, at least one unit
  unsettled, balance zero and an available balance \<open>X \<ge> 0\<close>, it is true exactly when the
  unsettled balance is at least \<open>X div 2\<close>, the truncated half of \<open>X\<close>, hence true whenever
  the unsettled balance is at least \<open>0.5 * X\<close>.
\<close>

theorem needsSettling_policy:
  "needsSettling myst ss threshold channel =
     (if \<not> registered ss then False
      else if settleInProgress ss then False
      else if Stake channel = 0 \<and> UnsettledBalance channel < int myst then False
      else if UnsettledBalance channel < calculatedThreshold threshold (availableBalance channel) then False
      else if balance channel \<le> calculatedThreshold threshold (availableBalance channel) then True
      else False)
   \<and> (Stake channel = 0 \<and> UnsettledBalance channel < int myst
        \<longrightarrow> \<not> needsSettling myst ss (Float64 1 (- 1)) channel)
   \<and> (registered ss \<and> \<not> settleInProgress ss \<and> Stake channel = 0 \<and> int myst \<le> UnsettledBalance channel
        \<and> balance channel = 0 \<and> 0 \<le> availableBalance channel
        \<longrightarrow> needsSettling myst ss (Float64 1 (- 1)) channel
              = (availableBalance channel div 2 \<le> UnsettledBalance channel))
   \<and> (registered ss \<and> \<not> settleInProgress ss \<and> Stake channel = 0 \<and> int myst \<le> UnsettledBalance channel
        \<and> balance channel = 0 \<and> 0 \<le> availableBalance channel
        \<and> 0.5 * real_of_int (availableBalance channel) \<le> real_of_int (UnsettledBalance channel)
        \<longrightarrow> needsSettling myst ss (Float64 1 (- 1)) channel)"
proof -
  have general: "needsSettling myst ss t channel =
     (if \<not> registered ss then False
      else if settleInProgress ss then False
      else if Stake channel = 0 \<and> UnsettledBalance channel < int myst then False
      else if UnsettledBalance channel < calculatedThreshold t (availableBalance channel) then False
      else if balance channel \<le> calculatedThreshold t (availableBalance channel) then True
      else False)" for t
    by (simp add: needsSettling_def Let_def)
  have half: "0 \<le> x \<Longrightarrow> calculatedThreshold (Float64 1 (- 1)) x = x div 2" for x
    by (simp add: calculatedThreshold_half truncHalf_def sgn_if)
  have dust: "Stake channel = 0 \<and> UnsettledBalance channel < int myst
        \<longrightarrow> \<not> needsSettling myst ss (Float64 1 (- 1)) channel"
    by (simp add: general)
  have exact: "registered ss \<and> \<not> settleInProgress ss \<and> Stake channel = 0 \<and> int myst \<le> UnsettledBalance channel
        \<and> balance channel = 0 \<and> 0 \<le> availableBalance channel
        \<longrightarrow> needsSettling myst ss (Float64 1 (- 1)) channel
              = (availableBalance channel div 2 \<le> UnsettledBalance channel)"
    using half [of "availableBalance channel"] by (auto simp add: general)
  have suff: "registered ss \<and> \<not> settleInProgress ss \<and> Stake channel = 0 \<and> int myst \<le> UnsettledBalance channel
        \<and> balance channel = 0 \<and> 0 \<le> availableBalance channel
        \<and> 0.5 * real_of_int (availableBalance channel) \<le> real_of_int (UnsettledBalance channel)
        \<longrightarrow> needsSettling myst ss (Float64 1 (- 1)) channel"
  proof (intro impI, elim conjE)
    assume h: "registered ss" "\<not> settleInProgress ss" "Stake channel = 0" "int myst \<le> UnsettledBalance channel"
      "balance channel = 0" "0 \<le> availableBalance channel"
      "0.5 * real_of_int (availableBalance channel) \<le> real_of_int (UnsettledBalance channel)"
    from h(7) have "availableBalance channel \<le> 2 * UnsettledBalance channel"
      by linarith
    then have "availableBalance channel div 2 \<le> UnsettledBalance channel"
      by linarith
    with exact h show "needsSettling myst ss (Float64 1 (- 1)) channel"
      by simp
  qed
  from general [of threshold] dust exact suff show ?thesis
    by blast
qed

text \<open>
  The theorem at two channels with zero stake and one unit of \<open>10 ^ 18\<close>: three units
  available and two unsettled, where the policy settles; half a unit unsettled, where it
  does not.
\<close>

theorem needsSettling_policy_witness:
  "needsSettling 1000000000000000000 \<lparr>settleInProgress = False, registered = True\<rparr> (Float64 1 (- 1))
     \<lparr>Identity = ''p'', HermesID = ''h'', Beneficiary = ''b'', Stake = 0, Settled = Some 3000000000000000000,
      UnsettledBalance = 2000000000000000000, availableBalance = 3000000000000000000, balance = 0,
      lastPromiseR = ''00'',
      lastPromise = \<lparr>ChainID = 1, Amount = 5000000000000000000, Fee = 0, R = [], Signature = []\<rparr>\<rparr>
   \<and> \<not> needsSettling 1000000000000000000 \<lparr>settleInProgress = False, registered = True\<rparr> (Float64 1 (- 1))
     \<lparr>Identity = ''p'', HermesID = ''h'', Beneficiary = ''b'', Stake = 0, Settled = Some 0,
      UnsettledBalance = 500000000000000000, availableBalance = 0, balance = 0,
      lastPromiseR = ''00'',
      lastPromise = \<lparr>ChainID = 1, Amount = 500000000000000000, Fee = 0, R = [], Signature = []\<rparr>\<rparr>"
proof
  show "needsSettling 1000000000000000000 \<lparr>settleInProgress = False, registered = True\<rparr> (Float64 1 (- 1))
     \<lparr>Identity = ''p'', HermesID = ''h'', Beneficiary = ''b'', Stake = 0, Settled = Some 3000000000000000000,
      UnsettledBalance = 2000000000000000000, availableBalance = 3000000000000000000, balance = 0,
      lastPromiseR = ''00'',
      lastPromise = \<lparr>ChainID = 1, Amount = 5000000000000000000, Fee = 0, R = [], Signature = []\<rparr>\<rparr>"
    by (rule needsSettling_policy [THEN conjunct2, THEN conjunct2, THEN conjunct2, THEN mp]) simp
  show "\<not> needsSettling 1000000000000000000 \<lparr>settleInProgress = False, registered = True\<rparr> (Float64 1 (- 1))
     \<lparr>Identity = ''p'', HermesID = ''h'', Beneficiary = ''b'', Stake = 0, Settled = Some 0,
      UnsettledBalance = 500000000000000000, availableBalance = 0, balance = 0,
      lastPromiseR = ''00'',
      lastPromise = \<lparr>ChainID = 1, Amount = 500000000000000000, Fee = 0, R = [], Signature = []\<rparr>\<rparr>"
    by (rule needsSettling_policy [THEN conjunct2, THEN conjunct1, THEN mp]) simp
qed

text \<open>
  The claim as written fails where the available balance is odd: with two units and one
  wei available and exactly one unit unsettled, the truncated threshold is one unit, so the
  policy settles, although one unit is less than half the available balance.
\<close>

theorem needsSettling_half_counterexample:
  "\<not> (needsSettling 1000000000000000000 \<lparr>settleInProgress = False, registered = True\<rparr> (Float64 1 (- 1))
        \<lparr>Identity = ''p'', HermesID = ''h'', Beneficiary = ''b'', Stake = 0, Settled = Some 2000000000000000001,
         UnsettledBalance = 1000000000000000000, availableBalance = 2000000000000000001, balance = 0,
         lastPromiseR = ''00'',
         lastPromise = \<lparr>ChainID = 1, Amount = 3000000000000000001, Fee = 0, R = [], Signature = []\<rparr>\<rparr>
      = (0.5 * real_of_int 2000000000000000001 \<le> real_of_int 1000000000000000000))"
  by (simp add: needsSettling_def calculatedThreshold_half truncHalf_def)

section \<open>Properties of the state store and of the effects\<close>

lemma isSettling_setSettling [simp]: "isSettling (setSettling cs i b) i = b"
  by (simp add: isSettling_def setSettling_def Let_def)

lemma setSettling_entry:
  "setSettling cs i b i
     = Some ((case cs i of None \<Rightarrow> \<lparr>settleInProgress = False, registered = False\<rparr> | Some v \<Rightarrow> v)
               \<lparr>settleInProgress := b\<rparr>)"
  by (simp add: setSettling_def Let_def)

lemma setSettling_twice:
  "setSettling (setSettling cs i a) i b
     = cs(i \<mapsto> (case cs i of None \<Rightarrow> \<lparr>settleInProgress = False, registered = False\<rparr> | Some v \<Rightarrow> v)
                  \<lparr>settleInProgress := b\<rparr>)"
  by (simp add: setSettling_def Let_def split: option.splits)

lemma currentState_emit [simp]: "currentState (emit ev w) = currentState w"
  by (simp add: emit_def)

lemma trace_emit [simp]: "trace (emit ev w) = trace w @ [ev]"
  by (simp add: emit_def)

lemma currentState_setSettlingW [simp]:
  "currentState (setSettlingW i b w) = setSettling (currentState w) i b"
  by (simp add: setSettlingW_def)

lemma trace_setSettlingW [simp]: "trace (setSettlingW i b w) = trace w @ [SetSettling i b]"
  by (simp add: setSettlingW_def)

text \<open>
  Claim C7. \<^verbatim>\<open>loadInitialState\<close> stores \<open>{registered: true, settleInProgress: false}\<close>
  for an identity that has no state yet and that the registration lookup reports as
  registered. For an identity that already has a state it returns no error and leaves the
  world as it is, an in-progress flag included. When the lookup fails, or reports another
  status, nothing is stored, and on the world it leaves, a promise received for that
  identity sends nothing to the settlement queue, whatever the collaborators answer.
\<close>

theorem loadInitialState_once:
  "(currentState w i = Some s \<longrightarrow> loadInitialState e chainID i w = (None, w))
   \<and> (currentState w i = None \<and> GetRegistrationStatus e chainID i = Inr Registered \<longrightarrow>
        loadInitialState e chainID i w
          = (None, w\<lparr>currentState := (currentState w)(i \<mapsto> \<lparr>settleInProgress = False, registered = True\<rparr>)\<rparr>))
   \<and> (currentState w i = None \<and> GetRegistrationStatus e chainID i = Inl err \<longrightarrow>
        loadInitialState e chainID i w = (Some (Wrapped ''could not check registration status'' err), w))
   \<and> (currentState w i = None \<and> GetRegistrationStatus e chainID i = Inr status \<and> status \<noteq> Registered \<longrightarrow>
        loadInitialState e chainID i w = (None, w))
   \<and> (currentState w i = None
        \<and> (GetRegistrationStatus e chainID i = Inl err
            \<or> GetRegistrationStatus e chainID i = Inr status \<and> status \<noteq> Registered)
        \<and> apep_ProviderID apep = i \<longrightarrow>
        handleHermesPromiseReceived e' apep (snd (loadInitialState e chainID i w)) = None)"
  by (auto simp add: loadInitialState_def handleHermesPromiseReceived_def Let_def)

text \<open>
  The theorem at \<open>''p''\<close>: loaded while its settlement is in progress; loaded into the
  empty world; with a lookup that fails; with a lookup that reports another status, after
  which a promise received for \<open>''p''\<close> queues nothing.
\<close>

theorem loadInitialState_once_witness:
  "loadInitialState exampleEnv 137 ''p'' busyWorld = (None, busyWorld)
   \<and> loadInitialState exampleEnv 137 ''p'' emptyWorld
       = (None, emptyWorld\<lparr>currentState := (currentState emptyWorld)
                   (''p'' \<mapsto> \<lparr>settleInProgress = False, registered = True\<rparr>)\<rparr>)
   \<and> loadInitialState (exampleEnv\<lparr>GetRegistrationStatus := \<lambda>_ _. Inl (Collaborator ''rpc down'')\<rparr>)
         137 ''p'' emptyWorld
       = (Some (Wrapped ''could not check registration status'' (Collaborator ''rpc down'')), emptyWorld)
   \<and> loadInitialState (exampleEnv\<lparr>GetRegistrationStatus := \<lambda>_ _. Inr (OtherStatus 1)\<rparr>) 137 ''p'' emptyWorld
       = (None, emptyWorld)
   \<and> handleHermesPromiseReceived exampleEnv
         \<lparr>apep_Promise = examplePromise, apep_HermesID = ''h'', apep_ProviderID = ''p''\<rparr>
         (snd (loadInitialState (exampleEnv\<lparr>GetRegistrationStatus := \<lambda>_ _. Inr (OtherStatus 1)\<rparr>)
                 137 ''p'' emptyWorld))
       = None"
proof (intro conjI)
  show "loadInitialState exampleEnv 137 ''p'' busyWorld = (None, busyWorld)"
    by (rule loadInitialState_once
          [where s = "\<lparr>settleInProgress = True, registered = True\<rparr>", THEN conjunct1, THEN mp])
       (simp add: busyWorld_def)
  show "loadInitialState exampleEnv 137 ''p'' emptyWorld
       = (None, emptyWorld\<lparr>currentState := (currentState emptyWorld)
                   (''p'' \<mapsto> \<lparr>settleInProgress = False, registered = True\<rparr>)\<rparr>)"
    by (rule loadInitialState_once [THEN conjunct2, THEN conjunct1, THEN mp])
       (simp add: emptyWorld_def exampleEnv_def)
  show "loadInitialState (exampleEnv\<lparr>GetRegistrationStatus := \<lambda>_ _. Inl (Collaborator ''rpc down'')\<rparr>)
         137 ''p'' emptyWorld
       = (Some (Wrapped ''could not check registration status'' (Collaborator ''rpc down'')), emptyWorld)"
    by (rule loadInitialState_once [THEN conjunct2, THEN conjunct2, THEN conjunct1, THEN mp])
       (simp add: emptyWorld_def)
  show "loadInitialState (exampleEnv\<lparr>GetRegistrationStatus := \<lambda>_ _. Inr (OtherStatus 1)\<rparr>) 137 ''p'' emptyWorld
       = (None, emptyWorld)"
    by (rule loadInitialState_once
          [where status = "OtherStatus 1", THEN conjunct2, THEN conjunct2, THEN conjunct2, THEN conjunct1, THEN mp])
       (simp add: emptyWorld_def)
  show "handleHermesPromiseReceived exampleEnv
         \<lparr>apep_Promise = examplePromise, apep_HermesID = ''h'', apep_ProviderID = ''p''\<rparr>
         (snd (loadInitialState (exampleEnv\<lparr>GetRegistrationStatus := \<lambda>_ _. Inr (OtherStatus 1)\<rparr>)
                 137 ''p'' emptyWorld))
       = None"
    by (rule loadInitialState_once
          [where status = "OtherStatus 1" and err = ErrNotFound,
           THEN conjunct2, THEN conjunct2, THEN conjunct2, THEN conjunct2, THEN mp])
       (simp add: emptyWorld_def)
qed

section \<open>Properties of the fee updater\<close>

lemma updatePromiseWithLatestFee_ok:
  assumes "FetchSettleFees e (ChainID p) = Inr txFee"
    and "GetHermesURL e (ChainID p) hermesID = Inr url"
    and "UpdatePromiseFee e url p txFee = Inr resigned"
  shows "updatePromiseWithLatestFee e hermesID p w =
           (Inr (resigned\<lparr>R := R p\<rparr>),
            emit (CallUpdatePromiseFee p txFee)
              (emit (CallGetHermesURL (ChainID p) hermesID) (emit (CallFetchSettleFees (ChainID p)) w)))"
  using assms by (simp add: updatePromiseWithLatestFee_def Let_def)

text \<open>
  Claim C8. When the three calls succeed, \<^verbatim>\<open>updatePromiseWithLatestFee\<close> returns the
  promise the hermes re-signed with the secret \<open>R\<close> of the original promise in place of
  the one in the response. When the fetch of the fees, the resolution of the hermes URL or
  the re-signing fails, it returns that error, wrapped, and makes no further call: each
  collaborator is called at most once. It never touches the state store.
\<close>

theorem updatePromiseWithLatestFee_reattaches_R:
  "(FetchSettleFees e (ChainID p) = Inr txFee \<and> GetHermesURL e (ChainID p) hermesID = Inr url
      \<and> UpdatePromiseFee e url p txFee = Inr resigned
      \<longrightarrow> fst (updatePromiseWithLatestFee e hermesID p w) = Inr (resigned\<lparr>R := R p\<rparr>)
          \<and> trace (snd (updatePromiseWithLatestFee e hermesID p w))
              = trace w @ [CallFetchSettleFees (ChainID p), CallGetHermesURL (ChainID p) hermesID,
                           CallUpdatePromiseFee p txFee])
   \<and> (FetchSettleFees e (ChainID p) = Inl err
      \<longrightarrow> fst (updatePromiseWithLatestFee e hermesID p w) = Inl (Wrapped ''could not fetch settle fees'' err)
          \<and> trace (snd (updatePromiseWithLatestFee e hermesID p w)) = trace w @ [CallFetchSettleFees (ChainID p)])
   \<and> (FetchSettleFees e (ChainID p) = Inr txFee \<and> GetHermesURL e (ChainID p) hermesID = Inl err
      \<longrightarrow> fst (updatePromiseWithLatestFee e hermesID p w)
            = Inl (Wrapped ''could not fetch settle fees'' (Wrapped ''could not get hermes URL'' err))
          \<and> trace (snd (updatePromiseWithLatestFee e hermesID p w))
              = trace w @ [CallFetchSettleFees (ChainID p), CallGetHermesURL (ChainID p) hermesID])
   \<and> (FetchSettleFees e (ChainID p) = Inr txFee \<and> GetHermesURL e (ChainID p) hermesID = Inr url
      \<and> UpdatePromiseFee e url p txFee = Inl err
      \<longrightarrow> fst (updatePromiseWithLatestFee e hermesID p w) = Inl (Wrapped ''could not update promise fee'' err)
          \<and> trace (snd (updatePromiseWithLatestFee e hermesID p w))
              = trace w @ [CallFetchSettleFees (ChainID p), CallGetHermesURL (ChainID p) hermesID,
                           CallUpdatePromiseFee p txFee])
   \<and> currentState (snd (updatePromiseWithLatestFee e hermesID p w)) = currentState w"
  by (simp add: updatePromiseWithLatestFee_def Let_def split: sum.splits)

text \<open>
  The theorem at the example promise, whose secret is \<open>[171, 205]\<close>: the hermes of the
  example environment answers with an empty secret, and the result carries \<open>[171, 205]\<close>;
  then with each of the three calls failing in turn.
\<close>

theorem updatePromiseWithLatestFee_reattaches_R_witness:
  "fst (updatePromiseWithLatestFee exampleEnv ''h'' examplePromise emptyWorld)
     = Inr ((examplePromise\<lparr>Fee := 10, R := [], Signature := [2]\<rparr>)\<lparr>R := [171, 205]\<rparr>)
   \<and> fst (updatePromiseWithLatestFee (exampleEnv\<lparr>FetchSettleFees := \<lambda>_. Inl (Collaborator ''no fees'')\<rparr>)
            ''h'' examplePromise emptyWorld)
       = Inl (Wrapped ''could not fetch settle fees'' (Collaborator ''no fees''))
   \<and> fst (updatePromiseWithLatestFee (exampleEnv\<lparr>GetHermesURL := \<lambda>_ _. Inl (Collaborator ''no url'')\<rparr>)
            ''h'' examplePromise emptyWorld)
       = Inl (Wrapped ''could not fetch settle fees'' (Wrapped ''could not get hermes URL'' (Collaborator ''no url'')))
   \<and> fst (updatePromiseWithLatestFee (exampleEnv\<lparr>UpdatePromiseFee := \<lambda>_ _ _. Inl (Collaborator ''refused'')\<rparr>)
            ''h'' examplePromise emptyWorld)
       = Inl (Wrapped ''could not update promise fee'' (Collaborator ''refused''))"
proof (intro conjI)
  have "fst (updatePromiseWithLatestFee exampleEnv ''h'' examplePromise emptyWorld)
          = Inr ((examplePromise\<lparr>Fee := 10, R := [], Signature := [2]\<rparr>)\<lparr>R := R examplePromise\<rparr>)"
    by (rule updatePromiseWithLatestFee_reattaches_R
          [where txFee = 10 and url = "''https://hermes''", THEN conjunct1, THEN mp, THEN conjunct1])
       (simp add: exampleEnv_def)
  then show "fst (updatePromiseWithLatestFee exampleEnv ''h'' examplePromise emptyWorld)
     = Inr ((examplePromise\<lparr>Fee := 10, R := [], Signature := [2]\<rparr>)\<lparr>R := [171, 205]\<rparr>)"
    by (simp add: examplePromise_def)
  show "fst (updatePromiseWithLatestFee (exampleEnv\<lparr>FetchSettleFees := \<lambda>_. Inl (Collaborator ''no fees'')\<rparr>)
            ''h'' examplePromise emptyWorld)
       = Inl (Wrapped ''could not fetch settle fees'' (Collaborator ''no fees''))"
    by (rule updatePromiseWithLatestFee_reattaches_R
          [THEN conjunct2, THEN conjunct1, THEN mp, THEN conjunct1])
       simp
  show "fst (updatePromiseWithLatestFee (exampleEnv\<lparr>GetHermesURL := \<lambda>_ _. Inl (Collaborator ''no url'')\<rparr>)
            ''h'' examplePromise emptyWorld)
       = Inl (Wrapped ''could not fetch settle fees'' (Wrapped ''could not get hermes URL'' (Collaborator ''no url'')))"
    by (rule updatePromiseWithLatestFee_reattaches_R
          [where txFee = 10, THEN conjunct2, THEN conjunct2, THEN conjunct1, THEN mp, THEN conjunct1])
       (simp add: exampleEnv_def)
  show "fst (updatePromiseWithLatestFee (exampleEnv\<lparr>UpdatePromiseFee := \<lambda>_ _ _. Inl (Collaborator ''refused'')\<rparr>)
            ''h'' examplePromise emptyWorld)
       = Inl (Wrapped ''could not update promise fee'' (Collaborator ''refused''))"
    by (rule updatePromiseWithLatestFee_reattaches_R
          [where txFee = 10 and url = "''https://hermes''",
           THEN conjunct2, THEN conjunct2, THEN conjunct2, THEN conjunct1, THEN mp, THEN conjunct1])
       (simp add: exampleEnv_def)
qed

section \<open>Properties of the settlement executor\<close>

lemma settlePrepare_fees_exceed:
  assumes "FetchSettleFees e (ChainID p) = Inr txFee"
    and "GetHermesURL e (ChainID p) hermesID = Inr url"
    and "UpdatePromiseFee e url p txFee = Inr resigned"
    and "amountToSettle = Amount resigned - (case settled of None \<Rightarrow> 0 | Some s \<Rightarrow> s)"
    and "CalculateHermesFee e (ChainID p) hermesID amountToSettle = Inr hermesFee"
    and "amountToSettle < hermesFee + Fee resigned"
  shows "settlePrepare e provider hermesID p settled w =
           (Inl (ErrFeesExceedEarnings amountToSettle (hermesFee + Fee resigned)),
            setSettlingW provider False
              (emit (CallCalculateHermesFee (ChainID p) hermesID amountToSettle)
                (emit (CallUpdatePromiseFee p txFee)
                  (emit (CallGetHermesURL (ChainID p) hermesID) (emit (CallFetchSettleFees (ChainID p)) w)))))"
  using assms by (simp add: settlePrepare_def updatePromiseWithLatestFee_ok Let_def)

lemma settlePrepare_fees_covered:
  assumes "FetchSettleFees e (ChainID p) = Inr txFee"
    and "GetHermesURL e (ChainID p) hermesID = Inr url"
    and "UpdatePromiseFee e url p txFee = Inr resigned"
    and "amountToSettle = Amount resigned - (case settled of None \<Rightarrow> 0 | Some s \<Rightarrow> s)"
    and "CalculateHermesFee e (ChainID p) hermesID amountToSettle = Inr hermesFee"
    and "hermesFee + Fee resigned \<le> amountToSettle"
  shows "settlePrepare e provider hermesID p settled w =
           (let w3 = emit (Subscribe (ChainID p) provider hermesID)
                      (emit (CallCalculateHermesFee (ChainID p) hermesID amountToSettle)
                        (emit (CallUpdatePromiseFee p txFee)
                          (emit (CallGetHermesURL (ChainID p) hermesID)
                            (emit (CallFetchSettleFees (ChainID p)) w))))
            in case SubscribeToPromiseSettledEvent e (ChainID p) provider hermesID of
                 Some err \<Rightarrow> (Inl err, setSettlingW provider False w3)
               | None \<Rightarrow> (Inr (resigned\<lparr>R := R p\<rparr>), w3))"
  using assms by (simp add: settlePrepare_def updatePromiseWithLatestFee_ok Let_def)

lemma awaitSettlement_trace: "\<exists>rest. trace (snd (awaitSettlement e provider hermesID p up b r w)) = trace w @ rest"
  by (simp add: awaitSettlement_def releaseAndCancel_def recordSettlement_def Let_def split: waitOutcome.splits)

text \<open>
  Claim C3. In \<^verbatim>\<open>settle\<close>, called with the guard free and with the fee update and the
  hermes fee calculation succeeding, the amount to settle is the amount of the updated
  promise minus what is already settled, zero when that is unknown (\<^verbatim>\<open>nil\<close>). If the
  hermes fee for that amount plus the fee of the updated promise exceeds it, the call
  returns the fees-exceed-earnings error, the guard is released, and nothing is subscribed
  or submitted: the effects are the guard taken, the four fee calls, the guard released.
  The guard released is one that was held: the fee check runs in the world the mark of line
  665 leaves, where the flag of the provider is true, and the store left behind is the
  initial one with the provider's entry set to not in progress.
  Otherwise the call goes on to the subscription, and when that succeeds the updated
  promise is submitted.
\<close>

theorem settle_fee_check:
  assumes free: "\<not> isSettling (currentState w) provider"
    and fees: "FetchSettleFees e (ChainID p) = Inr txFee"
    and url: "GetHermesURL e (ChainID p) hermesID = Inr url"
    and resign: "UpdatePromiseFee e url p txFee = Inr resigned"
    and amt: "amountToSettle = Amount resigned - (case settled of None \<Rightarrow> 0 | Some s \<Rightarrow> s)"
    and hfee: "CalculateHermesFee e (ChainID p) hermesID amountToSettle = Inr hermesFee"
  shows "(amountToSettle < hermesFee + Fee resigned \<longrightarrow>
            fst (settle e settleFunc provider hermesID p beneficiary settled w)
              = Some (ErrFeesExceedEarnings amountToSettle (hermesFee + Fee resigned))
          \<and> \<not> isSettling (currentState (snd (settle e settleFunc provider hermesID p beneficiary settled w))) provider
          \<and> trace (snd (settle e settleFunc provider hermesID p beneficiary settled w))
              = trace w @ [SetSettling provider True, CallFetchSettleFees (ChainID p),
                           CallGetHermesURL (ChainID p) hermesID, CallUpdatePromiseFee p txFee,
                           CallCalculateHermesFee (ChainID p) hermesID amountToSettle,
                           SetSettling provider False]
          \<and> isSettling (currentState (setSettlingW provider True w)) provider
          \<and> snd (settle e settleFunc provider hermesID p beneficiary settled w)
              = snd (settlePrepare e provider hermesID p settled (setSettlingW provider True w))
          \<and> currentState (snd (settle e settleFunc provider hermesID p beneficiary settled w))
              = (currentState w)(provider \<mapsto>
                  (case currentState w provider of
                     None \<Rightarrow> \<lparr>settleInProgress = False, registered = False\<rparr> | Some v \<Rightarrow> v)
                  \<lparr>settleInProgress := False\<rparr>))
       \<and> (hermesFee + Fee resigned \<le> amountToSettle \<longrightarrow>
            (\<exists>rest. trace (snd (settle e settleFunc provider hermesID p beneficiary settled w))
              = trace w @ [SetSettling provider True, CallFetchSettleFees (ChainID p),
                           CallGetHermesURL (ChainID p) hermesID, CallUpdatePromiseFee p txFee,
                           CallCalculateHermesFee (ChainID p) hermesID amountToSettle,
                           Subscribe (ChainID p) provider hermesID] @ rest)
          \<and> (SubscribeToPromiseSettledEvent e (ChainID p) provider hermesID = None \<longrightarrow>
               (\<exists>rest. trace (snd (settle e settleFunc provider hermesID p beneficiary settled w))
                 = trace w @ [SetSettling provider True, CallFetchSettleFees (ChainID p),
                              CallGetHermesURL (ChainID p) hermesID, CallUpdatePromiseFee p txFee,
                              CallCalculateHermesFee (ChainID p) hermesID amountToSettle,
                              Subscribe (ChainID p) provider hermesID,
                              Submit (resigned\<lparr>R := R p\<rparr>)] @ rest)))"
proof (intro conjI impI)
  assume exceed: "amountToSettle < hermesFee + Fee resigned"
  have s: "settle e settleFunc provider hermesID p beneficiary settled w =
             (Some (ErrFeesExceedEarnings amountToSettle (hermesFee + Fee resigned)),
              setSettlingW provider False
                (emit (CallCalculateHermesFee (ChainID p) hermesID amountToSettle)
                  (emit (CallUpdatePromiseFee p txFee)
                    (emit (CallGetHermesURL (ChainID p) hermesID)
                      (emit (CallFetchSettleFees (ChainID p)) (setSettlingW provider True w))))))"
    using free settlePrepare_fees_exceed [OF fees url resign amt hfee exceed]
    by (simp add: settle_def)
  show "fst (settle e settleFunc provider hermesID p beneficiary settled w)
          = Some (ErrFeesExceedEarnings amountToSettle (hermesFee + Fee resigned))"
    by (simp add: s)
  show "\<not> isSettling (currentState (snd (settle e settleFunc provider hermesID p beneficiary settled w))) provider"
    by (simp add: s)
  show "trace (snd (settle e settleFunc provider hermesID p beneficiary settled w))
          = trace w @ [SetSettling provider True, CallFetchSettleFees (ChainID p),
                       CallGetHermesURL (ChainID p) hermesID, CallUpdatePromiseFee p txFee,
                       CallCalculateHermesFee (ChainID p) hermesID amountToSettle,
                       SetSettling provider False]"
    by (simp add: s)
  show "isSettling (currentState (setSettlingW provider True w)) provider"
    by simp
  show "snd (settle e settleFunc provider hermesID p beneficiary settled w)
          = snd (settlePrepare e provider hermesID p settled (setSettlingW provider True w))"
    by (simp add: s settlePrepare_fees_exceed [OF fees url resign amt hfee exceed])
  show "currentState (snd (settle e settleFunc provider hermesID p beneficiary settled w))
          = (currentState w)(provider \<mapsto>
                  (case currentState w provider of
                     None \<Rightarrow> \<lparr>settleInProgress = False, registered = False\<rparr> | Some v \<Rightarrow> v)
                  \<lparr>settleInProgress := False\<rparr>)"
    by (simp add: s setSettling_twice)
next
  assume covered: "hermesFee + Fee resigned \<le> amountToSettle"
  note prep = settlePrepare_fees_covered [OF fees url resign amt hfee covered]
  show "\<exists>rest. trace (snd (settle e settleFunc provider hermesID p beneficiary settled w))
              = trace w @ [SetSettling provider True, CallFetchSettleFees (ChainID p),
                           CallGetHermesURL (ChainID p) hermesID, CallUpdatePromiseFee p txFee,
                           CallCalculateHermesFee (ChainID p) hermesID amountToSettle,
                           Subscribe (ChainID p) provider hermesID] @ rest"
    using free
    by (simp add: settle_def prep Let_def awaitSettlement_def releaseAndCancel_def recordSettlement_def
             split: option.splits waitOutcome.splits)
next
  assume covered: "hermesFee + Fee resigned \<le> amountToSettle"
    and sub: "SubscribeToPromiseSettledEvent e (ChainID p) provider hermesID = None"
  note prep = settlePrepare_fees_covered [OF fees url resign amt hfee covered]
  show "\<exists>rest. trace (snd (settle e settleFunc provider hermesID p beneficiary settled w))
                 = trace w @ [SetSettling provider True, CallFetchSettleFees (ChainID p),
                              CallGetHermesURL (ChainID p) hermesID, CallUpdatePromiseFee p txFee,
                              CallCalculateHermesFee (ChainID p) hermesID amountToSettle,
                              Subscribe (ChainID p) provider hermesID,
                              Submit (resigned\<lparr>R := R p\<rparr>)] @ rest"
    using free sub
    by (simp add: settle_def prep Let_def awaitSettlement_def releaseAndCancel_def recordSettlement_def
             split: option.splits waitOutcome.splits)
qed

text \<open>
  The theorem at the example promise of amount 100, nothing settled yet and a promise fee
  of 10: with a hermes fee of 95 the fees are 105 and the settlement is rejected, the guard
  of \<open>''p''\<close> being held during the check and its entry left with no settlement in
  progress; with a hermes fee of 50 the promise is submitted.
\<close>

theorem settle_fee_check_witness:
  "fst (settle (exampleEnv\<lparr>CalculateHermesFee := \<lambda>_ _ _. Inr 95\<rparr>) (\<lambda>_. None) ''p'' ''h'' examplePromise ''b'' None emptyWorld)
     = Some (ErrFeesExceedEarnings 100 105)
   \<and> \<not> isSettling (currentState (snd (settle (exampleEnv\<lparr>CalculateHermesFee := \<lambda>_ _ _. Inr 95\<rparr>) (\<lambda>_. None)
            ''p'' ''h'' examplePromise ''b'' None emptyWorld))) ''p''
   \<and> trace (snd (settle (exampleEnv\<lparr>CalculateHermesFee := \<lambda>_ _ _. Inr 95\<rparr>) (\<lambda>_. None)
            ''p'' ''h'' examplePromise ''b'' None emptyWorld))
       = [SetSettling ''p'' True, CallFetchSettleFees 137, CallGetHermesURL 137 ''h'',
          CallUpdatePromiseFee examplePromise 10, CallCalculateHermesFee 137 ''h'' 100,
          SetSettling ''p'' False]
   \<and> (\<exists>rest. trace (snd (settle exampleEnv (\<lambda>_. None) ''p'' ''h'' examplePromise ''b'' None emptyWorld))
         = [SetSettling ''p'' True, CallFetchSettleFees 137, CallGetHermesURL 137 ''h'',
            CallUpdatePromiseFee examplePromise 10, CallCalculateHermesFee 137 ''h'' 100,
            Subscribe 137 ''p'' ''h'',
            Submit \<lparr>ChainID = 137, Amount = 100, Fee = 10, R = [171, 205], Signature = [2]\<rparr>] @ rest)
   \<and> isSettling (currentState (setSettlingW ''p'' True emptyWorld)) ''p''
   \<and> currentState (snd (settle (exampleEnv\<lparr>CalculateHermesFee := \<lambda>_ _ _. Inr 95\<rparr>) (\<lambda>_. None)
            ''p'' ''h'' examplePromise ''b'' None emptyWorld))
       = [''p'' \<mapsto> \<lparr>settleInProgress = False, registered = False\<rparr>]"
proof -
  let ?resigned = "examplePromise\<lparr>Fee := 10, R := [], Signature := [2]\<rparr>"
  let ?e95 = "exampleEnv\<lparr>CalculateHermesFee := \<lambda>_ _ _. Inr 95\<rparr>"
  have free: "\<not> isSettling (currentState emptyWorld) ''p''"
    by (simp add: emptyWorld_def isSettling_def)
  have amt: "100 = Amount ?resigned - (case None of None \<Rightarrow> 0 | Some s \<Rightarrow> s)"
    by (simp add: examplePromise_def)
  have fees: "FetchSettleFees exampleEnv (ChainID examplePromise) = Inr 10"
    and url: "GetHermesURL exampleEnv (ChainID examplePromise) ''h'' = Inr ''https://hermes''"
    and resign: "UpdatePromiseFee exampleEnv ''https://hermes'' examplePromise 10 = Inr ?resigned"
    and hfee: "CalculateHermesFee exampleEnv (ChainID examplePromise) ''h'' 100 = Inr 50"
    and sub: "SubscribeToPromiseSettledEvent exampleEnv (ChainID examplePromise) ''p'' ''h'' = None"
    by (simp_all add: exampleEnv_def)
  have fees95: "FetchSettleFees ?e95 (ChainID examplePromise) = Inr 10"
    and url95: "GetHermesURL ?e95 (ChainID examplePromise) ''h'' = Inr ''https://hermes''"
    and resign95: "UpdatePromiseFee ?e95 ''https://hermes'' examplePromise 10 = Inr ?resigned"
    and hfee95: "CalculateHermesFee ?e95 (ChainID examplePromise) ''h'' 100 = Inr 95"
    by (simp_all add: exampleEnv_def)
  have exceed: "100 < 95 + Fee ?resigned" and covered: "50 + Fee ?resigned \<le> 100"
    by (simp_all add: examplePromise_def)
  note rejected =
    settle_fee_check [OF free fees95 url95 resign95 amt hfee95, THEN conjunct1, THEN mp, OF exceed,
      of "\<lambda>_. None" "''b''"]
  note proceeds =
    settle_fee_check [OF free fees url resign amt hfee, THEN conjunct2, THEN mp, OF covered,
      THEN conjunct2, THEN mp, OF sub, of "\<lambda>_. None" "''b''"]
  note error = rejected [THEN conjunct1]
    and freed = rejected [THEN conjunct2, THEN conjunct1]
    and effects = rejected [THEN conjunct2, THEN conjunct2, THEN conjunct1]
    and held = rejected [THEN conjunct2, THEN conjunct2, THEN conjunct2, THEN conjunct1]
    and entry = rejected [THEN conjunct2, THEN conjunct2, THEN conjunct2, THEN conjunct2, THEN conjunct2]
  from error freed effects held entry proceeds show ?thesis
    by (simp add: examplePromise_def emptyWorld_def)
qed

text \<open>
  Claim C6. When the channel provider has no channel for the chain, the provider and the
  hermes, \<^verbatim>\<open>ForceSettle\<close>, \<^verbatim>\<open>SettleWithBeneficiary\<close> and \<^verbatim>\<open>SettleIntoStake\<close> return
  \<^verbatim>\<open>ErrNothingToSettle\<close> and leave the world as it is: the guard is not taken and no
  collaborator is called.
\<close>

theorem no_channel_nothing_to_settle:
  assumes "channelGet e chainID providerID hermesID = None"
  shows "ForceSettle e chainID providerID hermesID w = (Some ErrNothingToSettle, w)
       \<and> SettleWithBeneficiary e chainID providerID beneficiary hermesID w = (Some ErrNothingToSettle, w)
       \<and> SettleIntoStake e chainID providerID hermesID w = (Some ErrNothingToSettle, w)"
  using assms by (simp add: ForceSettle_def SettleWithBeneficiary_def SettleIntoStake_def)

text \<open>The theorem at the provider \<open>''q''\<close>, which has no channel in the example environment.\<close>

theorem no_channel_nothing_to_settle_witness:
  "ForceSettle exampleEnv 137 ''q'' ''h'' emptyWorld = (Some ErrNothingToSettle, emptyWorld)
   \<and> SettleWithBeneficiary exampleEnv 137 ''q'' ''b'' ''h'' emptyWorld = (Some ErrNothingToSettle, emptyWorld)
   \<and> SettleIntoStake exampleEnv 137 ''q'' ''h'' emptyWorld = (Some ErrNothingToSettle, emptyWorld)"
  by (rule no_channel_nothing_to_settle) (simp add: exampleEnv_def)

section \<open>Properties of the withdrawal executor\<close>






text \<open>
  Claim C9. In \<^verbatim>\<open>payAndSettle\<close>, once the fee update has succeeded, the fee of the updated
  promise is compared with the withdrawal amount. If the fee is larger the call returns the
  amount-too-small error, after the three calls of the fee update and before any
  subscription or submission. Otherwise the call subscribes, submits the updated promise
  when the subscription succeeds, and then returns what the wait gives, which is what the
  wait of \<^verbatim>\<open>settle\<close> gives for the same outcome: \<^verbatim>\<open>ErrSettleTimeout\<close> when the timer
  fires, \<^verbatim>\<open>nil\<close> otherwise.
\<close>

theorem payAndSettle_fee_bound:
  assumes fees: "FetchSettleFees e (ChainID p) = Inr txFee"
    and url: "GetHermesURL e (ChainID p) hermesID = Inr url"
    and resign: "UpdatePromiseFee e url p txFee = Inr resigned"
  shows "(withdrawalAmount < Fee resigned \<longrightarrow>
            fst (payAndSettle e settleFunc provider hermesID p beneficiary withdrawalAmount w)
              = Some (ErrAmountTooSmall (Fee resigned) withdrawalAmount)
          \<and> trace (snd (payAndSettle e settleFunc provider hermesID p beneficiary withdrawalAmount w))
              = trace w @ [CallFetchSettleFees (ChainID p), CallGetHermesURL (ChainID p) hermesID,
                           CallUpdatePromiseFee p txFee])
       \<and> (Fee resigned \<le> withdrawalAmount \<longrightarrow>
            fst (payAndSettle e settleFunc provider hermesID p beneficiary withdrawalAmount w)
              = (case SubscribeToPromiseSettledEvent e (ChainID p) provider hermesID of
                   Some err \<Rightarrow> Some err
                 | None \<Rightarrow>
                     (case settleFunc (resigned\<lparr>R := R p\<rparr>) of
                        Some err \<Rightarrow> Some err
                      | None \<Rightarrow> (case waitResult e of TimedOut \<Rightarrow> Some ErrSettleTimeout | _ \<Rightarrow> None)))
          \<and> (\<exists>rest. trace (snd (payAndSettle e settleFunc provider hermesID p beneficiary withdrawalAmount w))
              = trace w @ [CallFetchSettleFees (ChainID p), CallGetHermesURL (ChainID p) hermesID,
                           CallUpdatePromiseFee p txFee, Subscribe (ChainID p) provider hermesID] @ rest)
          \<and> (SubscribeToPromiseSettledEvent e (ChainID p) provider hermesID = None \<longrightarrow>
               (\<exists>rest. trace (snd (payAndSettle e settleFunc provider hermesID p beneficiary withdrawalAmount w))
                 = trace w @ [CallFetchSettleFees (ChainID p), CallGetHermesURL (ChainID p) hermesID,
                              CallUpdatePromiseFee p txFee, Subscribe (ChainID p) provider hermesID,
                              Submit (resigned\<lparr>R := R p\<rparr>)] @ rest)))
       \<and> fst (awaitPayAndSettle e True w) = fst (awaitSettlement e provider hermesID p (resigned\<lparr>R := R p\<rparr>) beneficiary True w')"
proof (intro conjI impI)
  note up = updatePromiseWithLatestFee_ok [OF fees url resign]
  show "fst (awaitPayAndSettle e True w) = fst (awaitSettlement e provider hermesID p (resigned\<lparr>R := R p\<rparr>) beneficiary True w')"
    by (simp add: awaitPayAndSettle_def awaitSettlement_def split: waitOutcome.splits)
  {
    assume small: "withdrawalAmount < Fee resigned"
    show "fst (payAndSettle e settleFunc provider hermesID p beneficiary withdrawalAmount w)
              = Some (ErrAmountTooSmall (Fee resigned) withdrawalAmount)"
      using small by (simp add: payAndSettle_def up)
    show "trace (snd (payAndSettle e settleFunc provider hermesID p beneficiary withdrawalAmount w))
              = trace w @ [CallFetchSettleFees (ChainID p), CallGetHermesURL (ChainID p) hermesID,
                           CallUpdatePromiseFee p txFee]"
      using small by (simp add: payAndSettle_def up)
  }
  {
    assume enough: "Fee resigned \<le> withdrawalAmount"
    show "fst (payAndSettle e settleFunc provider hermesID p beneficiary withdrawalAmount w)
              = (case SubscribeToPromiseSettledEvent e (ChainID p) provider hermesID of
                   Some err \<Rightarrow> Some err
                 | None \<Rightarrow>
                     (case settleFunc (resigned\<lparr>R := R p\<rparr>) of
                        Some err \<Rightarrow> Some err
                      | None \<Rightarrow> (case waitResult e of TimedOut \<Rightarrow> Some ErrSettleTimeout | _ \<Rightarrow> None)))"
      using enough
      by (simp add: payAndSettle_def up Let_def awaitPayAndSettle_def split: option.splits waitOutcome.splits)
    show "\<exists>rest. trace (snd (payAndSettle e settleFunc provider hermesID p beneficiary withdrawalAmount w))
              = trace w @ [CallFetchSettleFees (ChainID p), CallGetHermesURL (ChainID p) hermesID,
                           CallUpdatePromiseFee p txFee, Subscribe (ChainID p) provider hermesID] @ rest"
      using enough
      by (simp add: payAndSettle_def up Let_def awaitPayAndSettle_def split: option.splits waitOutcome.splits)
    assume sub: "SubscribeToPromiseSettledEvent e (ChainID p) provider hermesID = None"
    show "\<exists>rest. trace (snd (payAndSettle e settleFunc provider hermesID p beneficiary withdrawalAmount w))
                 = trace w @ [CallFetchSettleFees (ChainID p), CallGetHermesURL (ChainID p) hermesID,
                              CallUpdatePromiseFee p txFee, Subscribe (ChainID p) provider hermesID,
                              Submit (resigned\<lparr>R := R p\<rparr>)] @ rest"
      using enough sub
      by (simp add: payAndSettle_def up Let_def awaitPayAndSettle_def split: option.splits waitOutcome.splits)
  }
qed

section \<open>Properties of the interleavings\<close>

lemma run_snoc: "run e (sch @ [a]) s = step e a (run e sch s)"
  by (induction sch arbitrary: s) simp_all

lemma stoppedInv_caller:
  assumes prep: "\<And>w. fst (settlePrepare e (t_provider t0) (t_hermesID t0) (t_promise t0) (t_settled t0) w) = Inr up
                   \<and> currentState (snd (settlePrepare e (t_provider t0) (t_hermesID t0) (t_promise t0) (t_settled t0) w))
                       = currentState w
                   \<and> trace (snd (settlePrepare e (t_provider t0) (t_hermesID t0) (t_promise t0) (t_settled t0) w))
                       = trace w @ evs"
    and quiet: "\<not> list_ex isStoreHistory evs"
    and submit: "t_settleFunc t0 up = None"
    and inv: "stoppedInv t0 w0 up t sh"
    and step: "callerStep e t sh = Some (t', sh')"
  shows "stoppedInv t0 w0 up t' sh'"
proof -
  from inv have same: "sameCall t0 t"
    by (simp add: stoppedInv_def)
  then have fields: "t_settleFunc t = t_settleFunc t0" "t_provider t = t_provider t0"
    "t_hermesID t = t_hermesID t0" "t_promise t = t_promise t0" "t_settled t = t_settled t0"
    by (simp_all add: sameCall_def)
  show ?thesis
  proof (cases "callerPc t")
    case AtCheck
    with inv step show ?thesis
      by (auto simp add: callerStep_def stoppedInv_def sameCall_def split: waiterPc.splits if_splits)
  next
    case AtMark
    with inv step show ?thesis
      by (auto simp add: callerStep_def stoppedInv_def sameCall_def split: waiterPc.splits)
  next
    case AtPrepare
    obtain res w1 where sp: "settlePrepare e (t_provider t0) (t_hermesID t0) (t_promise t0) (t_settled t0) sh = (res, w1)"
      by (cases "settlePrepare e (t_provider t0) (t_hermesID t0) (t_promise t0) (t_settled t0) sh")
    with prep [of sh] have w1: "res = Inr up" "currentState w1 = currentState sh" "trace w1 = trace sh @ evs"
      by simp_all
    from AtPrepare inv step sp w1 quiet show ?thesis
      by (auto simp add: callerStep_def stoppedInv_def sameCall_def fields split: waiterPc.splits)
  next
    case (AtSubmit u)
    with inv have "u = up"
      by (auto simp add: stoppedInv_def split: waiterPc.splits)
    with AtSubmit inv step submit show ?thesis
      by (auto simp add: callerStep_def stoppedInv_def sameCall_def fields split: waiterPc.splits)
  next
    case AtReceive
    with inv step show ?thesis
      by (auto simp add: callerStep_def stoppedInv_def sameCall_def split: waiterPc.splits if_splits)
  next
    case (Returned r)
    with step show ?thesis
      by (simp add: callerStep_def)
  qed
qed

lemma stoppedInv_waiter:
  assumes stop: "waitResult e = Stopped"
    and inv: "stoppedInv t0 w0 up t sh"
    and step: "waiterStep e t sh = Some (t', sh')"
  shows "stoppedInv t0 w0 up t' sh'"
  using assms
  by (cases "waiterPc t")
     (auto simp add: waiterStep_def stoppedInv_def sameCall_def split: if_splits)

lemma stoppedInv_run:
  assumes prep: "\<And>w. fst (settlePrepare e (t_provider t0) (t_hermesID t0) (t_promise t0) (t_settled t0) w) = Inr up
                   \<and> currentState (snd (settlePrepare e (t_provider t0) (t_hermesID t0) (t_promise t0) (t_settled t0) w))
                       = currentState w
                   \<and> trace (snd (settlePrepare e (t_provider t0) (t_hermesID t0) (t_promise t0) (t_settled t0) w))
                       = trace w @ evs"
    and quiet: "\<not> list_ex isStoreHistory evs"
    and submit: "t_settleFunc t0 up = None"
    and stop: "waitResult e = Stopped"
    and inv: "stoppedInv t0 w0 up t sh"
  shows "\<exists>t' sh'. run e sch \<lparr>tasks = [t], shared = sh\<rparr> = \<lparr>tasks = [t'], shared = sh'\<rparr>
                   \<and> stoppedInv t0 w0 up t' sh'"
proof (induction sch rule: rev_induct)
  case Nil
  from inv show ?case by simp
next
  case (snoc a sch)
  then obtain t1 sh1 where r: "run e sch \<lparr>tasks = [t], shared = sh\<rparr> = \<lparr>tasks = [t1], shared = sh1\<rparr>"
    and i1: "stoppedInv t0 w0 up t1 sh1"
    by blast
  obtain i ro where a: "a = (i, ro)"
    by (cases a)
  show ?case
  proof (cases "i = 0")
    case False
    with r i1 a show ?thesis
      by (simp add: run_snoc step_def)
  next
    case True
    show ?thesis
    proof (cases ro)
      case Caller
      show ?thesis
      proof (cases "callerStep e t1 sh1")
        case None
        with r i1 a True Caller show ?thesis
          by (simp add: run_snoc step_def)
      next
        case (Some ts)
        obtain t2 sh2 where ts: "ts = (t2, sh2)"
          by (cases ts)
        from stoppedInv_caller [OF prep quiet submit i1] Some ts have "stoppedInv t0 w0 up t2 sh2"
          by simp
        with r a True Caller Some ts show ?thesis
          by (simp add: run_snoc step_def)
      qed
    next
      case Waiter
      show ?thesis
      proof (cases "waiterStep e t1 sh1")
        case None
        with r i1 a True Waiter show ?thesis
          by (simp add: run_snoc step_def)
      next
        case (Some ts)
        obtain t2 sh2 where ts: "ts = (t2, sh2)"
          by (cases ts)
        from stoppedInv_waiter [OF stop i1] Some ts have "stoppedInv t0 w0 up t2 sh2"
          by simp
        with r a True Waiter Some ts show ?thesis
          by (simp add: run_snoc step_def)
      qed
    qed
  qed
qed

lemma settle_alone:
  "callerPc (tasks (run e alone \<lparr>tasks = [newTask sf provider hermesID p b settled], shared = w\<rparr>) ! 0)
     = Returned (fst (settle e sf provider hermesID p b settled w))
   \<and> shared (run e alone \<lparr>tasks = [newTask sf provider hermesID p b settled], shared = w\<rparr>)
     = snd (settle e sf provider hermesID p b settled w)"
proof (cases "isSettling (currentState w) provider")
  case True
  then show ?thesis
    by (simp add: alone_def step_def callerStep_def waiterStep_def newTask_def settle_def)
next
  case False
  obtain res w1 where sp: "settlePrepare e provider hermesID p settled (setSettlingW provider True w) = (res, w1)"
    by (cases "settlePrepare e provider hermesID p settled (setSettlingW provider True w)")
  show ?thesis
  proof (cases res)
    case (Inl err)
    with False sp show ?thesis
      by (simp add: alone_def step_def callerStep_def waiterStep_def newTask_def settle_def)
  next
    case (Inr up)
    show ?thesis
    proof (cases "sf up")
      case (Some err)
      with False sp Inr show ?thesis
        by (cases "waitResult e")
           (simp_all add: alone_def step_def callerStep_def waiterStep_def newTask_def settle_def
              awaitSettlement_def releaseAndCancel_def Let_def)
    next
      case None
      with False sp Inr show ?thesis
        by (cases "waitResult e")
           (simp_all add: alone_def step_def callerStep_def waiterStep_def newTask_def settle_def
              awaitSettlement_def releaseAndCancel_def Let_def)
    qed
  qed
qed

lemma settlePrepare_ok:
  assumes "FetchSettleFees e (ChainID p) = Inr txFee"
    and "GetHermesURL e (ChainID p) hermesID = Inr url"
    and "UpdatePromiseFee e url p txFee = Inr resigned"
    and "amountToSettle = Amount resigned - (case settled of None \<Rightarrow> 0 | Some s \<Rightarrow> s)"
    and "CalculateHermesFee e (ChainID p) hermesID amountToSettle = Inr hermesFee"
    and "hermesFee + Fee resigned \<le> amountToSettle"
    and "SubscribeToPromiseSettledEvent e (ChainID p) provider hermesID = None"
  shows "settlePrepare e provider hermesID p settled w =
           (Inr (resigned\<lparr>R := R p\<rparr>),
            emit (Subscribe (ChainID p) provider hermesID)
              (emit (CallCalculateHermesFee (ChainID p) hermesID amountToSettle)
                (emit (CallUpdatePromiseFee p txFee)
                  (emit (CallGetHermesURL (ChainID p) hermesID)
                    (emit (CallFetchSettleFees (ChainID p)) w)))))"
  using settlePrepare_fees_covered [OF assms(1-6), of provider w] assms(7)
  by (simp add: Let_def)

text \<open>
  Claim C5. A call of \<^verbatim>\<open>settle\<close> with the guard free, whose preparation and submission
  succeed and whose goroutine receives the stop signal while it waits: under every schedule
  of the caller and the goroutine, a caller that has returned has returned no error, the
  trace has gained no history entry, and once the goroutine has exited the subscription is
  cancelled and the guard is released. Run alone, the call returns no error and its effects
  are the guard taken, the fee calls, the subscription, the submission, the guard released
  and the cancellation. The guard that is released is one that was held: under every
  schedule the flag of the provider is true from the start of the goroutine up to its
  deferred release, and after that release the store is the initial one with the
  provider's entry set to not in progress; run alone, the goroutine starts in a world where
  the flag is true and leaves that same store.
\<close>

theorem settle_shutdown:
  assumes free: "\<not> isSettling (currentState w) provider"
    and fees: "FetchSettleFees e (ChainID p) = Inr txFee"
    and url: "GetHermesURL e (ChainID p) hermesID = Inr url"
    and resign: "UpdatePromiseFee e url p txFee = Inr resigned"
    and amt: "amountToSettle = Amount resigned - (case settled of None \<Rightarrow> 0 | Some s \<Rightarrow> s)"
    and hfee: "CalculateHermesFee e (ChainID p) hermesID amountToSettle = Inr hermesFee"
    and covered: "hermesFee + Fee resigned \<le> amountToSettle"
    and sub: "SubscribeToPromiseSettledEvent e (ChainID p) provider hermesID = None"
    and submit: "settleFunc (resigned\<lparr>R := R p\<rparr>) = None"
    and stop: "waitResult e = Stopped"
    and s: "s = run e sch \<lparr>tasks = [newTask settleFunc provider hermesID p beneficiary settled], shared = w\<rparr>"
  shows "(\<forall>r. callerPc (tasks s ! 0) = Returned r \<longrightarrow> r = None)
       \<and> \<not> list_ex isStoreHistory (drop (length (trace w)) (trace (shared s)))
       \<and> (waiterPc (tasks s ! 0) = Exited \<longrightarrow>
            Cancel \<in> set (drop (length (trace w)) (trace (shared s)))
            \<and> \<not> isSettling (currentState (shared s)) provider)
       \<and> fst (settle e settleFunc provider hermesID p beneficiary settled w) = None
       \<and> \<not> isSettling (currentState (snd (settle e settleFunc provider hermesID p beneficiary settled w))) provider
       \<and> trace (snd (settle e settleFunc provider hermesID p beneficiary settled w))
           = trace w @ [SetSettling provider True, CallFetchSettleFees (ChainID p),
                        CallGetHermesURL (ChainID p) hermesID, CallUpdatePromiseFee p txFee,
                        CallCalculateHermesFee (ChainID p) hermesID amountToSettle,
                        Subscribe (ChainID p) provider hermesID, Submit (resigned\<lparr>R := R p\<rparr>),
                        SetSettling provider False, Cancel]
       \<and> (waiterPc (tasks s ! 0) \<in> {AtSelect (resigned\<lparr>R := R p\<rparr>), AtClose, AtRelease} \<longrightarrow>
            isSettling (currentState (shared s)) provider)
       \<and> (waiterPc (tasks s ! 0) \<in> {AtCancel, Exited} \<longrightarrow>
            currentState (shared s)
              = (currentState w)(provider \<mapsto>
                  (case currentState w provider of
                     None \<Rightarrow> \<lparr>settleInProgress = False, registered = False\<rparr> | Some v \<Rightarrow> v)
                  \<lparr>settleInProgress := False\<rparr>))
       \<and> isSettling
            (currentState
              (emit (Submit (resigned\<lparr>R := R p\<rparr>))
                (snd (settlePrepare e provider hermesID p settled (setSettlingW provider True w)))))
            provider
       \<and> settle e settleFunc provider hermesID p beneficiary settled w
           = awaitSettlement e provider hermesID p (resigned\<lparr>R := R p\<rparr>) beneficiary True
               (emit (Submit (resigned\<lparr>R := R p\<rparr>))
                 (snd (settlePrepare e provider hermesID p settled (setSettlingW provider True w))))
       \<and> currentState (snd (settle e settleFunc provider hermesID p beneficiary settled w))
           = (currentState w)(provider \<mapsto>
               (case currentState w provider of
                  None \<Rightarrow> \<lparr>settleInProgress = False, registered = False\<rparr> | Some v \<Rightarrow> v)
               \<lparr>settleInProgress := False\<rparr>)"
proof -
  let ?t0 = "newTask settleFunc provider hermesID p beneficiary settled"
  let ?up = "resigned\<lparr>R := R p\<rparr>"
  let ?evs = "[CallFetchSettleFees (ChainID p), CallGetHermesURL (ChainID p) hermesID,
               CallUpdatePromiseFee p txFee, CallCalculateHermesFee (ChainID p) hermesID amountToSettle,
               Subscribe (ChainID p) provider hermesID]"
  note prep = settlePrepare_ok [OF fees url resign amt hfee covered sub]
  have prep': "fst (settlePrepare e (t_provider ?t0) (t_hermesID ?t0) (t_promise ?t0) (t_settled ?t0) w') = Inr ?up
        \<and> currentState (snd (settlePrepare e (t_provider ?t0) (t_hermesID ?t0) (t_promise ?t0) (t_settled ?t0) w'))
            = currentState w'
        \<and> trace (snd (settlePrepare e (t_provider ?t0) (t_hermesID ?t0) (t_promise ?t0) (t_settled ?t0) w'))
            = trace w' @ ?evs" for w'
    by (simp add: newTask_def prep)
  have quiet: "\<not> list_ex isStoreHistory ?evs"
    by simp
  have submit': "t_settleFunc ?t0 ?up = None"
    by (simp add: newTask_def submit)
  have init: "stoppedInv ?t0 w ?up ?t0 w"
    using free by (simp add: stoppedInv_def sameCall_def newTask_def)
  from stoppedInv_run [OF prep' quiet submit' stop init, of sch] s
  obtain t' sh' where r: "s = \<lparr>tasks = [t'], shared = sh'\<rparr>" and inv: "stoppedInv ?t0 w ?up t' sh'"
    by auto
  have a: "\<forall>r. callerPc (tasks s ! 0) = Returned r \<longrightarrow> r = None"
    using inv r by (auto simp add: stoppedInv_def split: waiterPc.splits)
  have b: "\<not> list_ex isStoreHistory (drop (length (trace w)) (trace (shared s)))"
    using inv r by (simp add: stoppedInv_def)
  have c: "waiterPc (tasks s ! 0) = Exited \<longrightarrow>
            Cancel \<in> set (drop (length (trace w)) (trace (shared s)))
            \<and> \<not> isSettling (currentState (shared s)) provider"
    using inv r by (auto simp add: stoppedInv_def sameCall_def newTask_def)
  have big: "settle e settleFunc provider hermesID p beneficiary settled w
               = (None, releaseAndCancel provider
                    (emit (Submit ?up)
                      (emit (Subscribe (ChainID p) provider hermesID)
                        (emit (CallCalculateHermesFee (ChainID p) hermesID amountToSettle)
                          (emit (CallUpdatePromiseFee p txFee)
                            (emit (CallGetHermesURL (ChainID p) hermesID)
                              (emit (CallFetchSettleFees (ChainID p)) (setSettlingW provider True w))))))))"
    using free submit stop by (simp add: settle_def prep awaitSettlement_def Let_def)
  have d: "waiterPc (tasks s ! 0) \<in> {AtSelect ?up, AtClose, AtRelease} \<longrightarrow>
            isSettling (currentState (shared s)) provider"
    using inv r by (auto simp add: stoppedInv_def sameCall_def newTask_def)
  have e: "waiterPc (tasks s ! 0) \<in> {AtCancel, Exited} \<longrightarrow>
            currentState (shared s)
              = (currentState w)(provider \<mapsto>
                  (case currentState w provider of
                     None \<Rightarrow> \<lparr>settleInProgress = False, registered = False\<rparr> | Some v \<Rightarrow> v)
                  \<lparr>settleInProgress := False\<rparr>)"
    using inv r by (auto simp add: stoppedInv_def sameCall_def newTask_def setSettling_twice)
  have held: "isSettling (currentState (emit (Submit ?up)
                (snd (settlePrepare e provider hermesID p settled (setSettlingW provider True w))))) provider"
    by (simp add: prep)
  have factor: "settle e settleFunc provider hermesID p beneficiary settled w
           = awaitSettlement e provider hermesID p ?up beneficiary True
               (emit (Submit ?up)
                 (snd (settlePrepare e provider hermesID p settled (setSettlingW provider True w))))"
    using free submit by (simp add: settle_def prep Let_def)
  have final: "currentState (snd (settle e settleFunc provider hermesID p beneficiary settled w))
           = (currentState w)(provider \<mapsto>
               (case currentState w provider of
                  None \<Rightarrow> \<lparr>settleInProgress = False, registered = False\<rparr> | Some v \<Rightarrow> v)
               \<lparr>settleInProgress := False\<rparr>)"
    by (simp add: big releaseAndCancel_def setSettling_twice)
  have seq: "fst (settle e settleFunc provider hermesID p beneficiary settled w) = None
       \<and> \<not> isSettling (currentState (snd (settle e settleFunc provider hermesID p beneficiary settled w))) provider
       \<and> trace (snd (settle e settleFunc provider hermesID p beneficiary settled w))
           = trace w @ [SetSettling provider True, CallFetchSettleFees (ChainID p),
                        CallGetHermesURL (ChainID p) hermesID, CallUpdatePromiseFee p txFee,
                        CallCalculateHermesFee (ChainID p) hermesID amountToSettle,
                        Subscribe (ChainID p) provider hermesID, Submit ?up,
                        SetSettling provider False, Cancel]"
    by (simp add: big releaseAndCancel_def)
  from a b c seq d e held factor final show ?thesis
    by blast
qed

lemma example_answers:
  "FetchSettleFees (exampleEnv\<lparr>waitResult := wo\<rparr>) (ChainID examplePromise) = Inr 10"
  "GetHermesURL (exampleEnv\<lparr>waitResult := wo\<rparr>) (ChainID examplePromise) ''h'' = Inr ''https://hermes''"
  "UpdatePromiseFee (exampleEnv\<lparr>waitResult := wo\<rparr>) ''https://hermes'' examplePromise 10
     = Inr (examplePromise\<lparr>Fee := 10, R := [], Signature := [2]\<rparr>)"
  "CalculateHermesFee (exampleEnv\<lparr>waitResult := wo\<rparr>) (ChainID examplePromise) ''h'' 100 = Inr 50"
  "SubscribeToPromiseSettledEvent (exampleEnv\<lparr>waitResult := wo\<rparr>) (ChainID examplePromise) ''p'' ''h'' = None"
  by (simp_all add: exampleEnv_def)

lemma example_amount:
  "100 = Amount (examplePromise\<lparr>Fee := 10, R := [], Signature := [2]\<rparr>) - (case None of None \<Rightarrow> 0 | Some s \<Rightarrow> s)"
  "50 + Fee (examplePromise\<lparr>Fee := 10, R := [], Signature := [2]\<rparr>) \<le> 100"
  by (simp_all add: examplePromise_def)

lemma settlePrepare_example_any:
  "settlePrepare (exampleEnv\<lparr>waitResult := wo\<rparr>) ''p'' ''h'' examplePromise None w =
     (Inr updatedExample,
      emit (Subscribe 137 ''p'' ''h'')
        (emit (CallCalculateHermesFee 137 ''h'' 100)
          (emit (CallUpdatePromiseFee examplePromise 10)
            (emit (CallGetHermesURL 137 ''h'') (emit (CallFetchSettleFees 137) w)))))"
proof -
  have c: "ChainID examplePromise = 137"
    and u: "examplePromise\<lparr>Fee := 10, R := [], Signature := [2]\<rparr>\<lparr>R := R examplePromise\<rparr> = updatedExample"
    by (simp_all add: examplePromise_def updatedExample_def)
  note ans = example_answers [of wo]
  from settlePrepare_ok [OF ans(1-3) example_amount(1) ans(4) example_amount(2) ans(5), of w]
  show ?thesis
    by (simp only: c u)
qed

lemma settlePrepare_example:
  "settlePrepare exampleEnv ''p'' ''h'' examplePromise None w =
     (Inr updatedExample,
      emit (Subscribe 137 ''p'' ''h'')
        (emit (CallCalculateHermesFee 137 ''h'' 100)
          (emit (CallUpdatePromiseFee examplePromise 10)
            (emit (CallGetHermesURL 137 ''h'') (emit (CallFetchSettleFees 137) w)))))"
proof -
  let ?resigned = "examplePromise\<lparr>Fee := 10, R := [], Signature := [2]\<rparr>"
  have amt: "100 = Amount ?resigned - (case None of None \<Rightarrow> 0 | Some s \<Rightarrow> s)"
    by (simp add: examplePromise_def)
  have fees: "FetchSettleFees exampleEnv (ChainID examplePromise) = Inr 10"
    and url: "GetHermesURL exampleEnv (ChainID examplePromise) ''h'' = Inr ''https://hermes''"
    and resign: "UpdatePromiseFee exampleEnv ''https://hermes'' examplePromise 10 = Inr ?resigned"
    and hfee: "CalculateHermesFee exampleEnv (ChainID examplePromise) ''h'' 100 = Inr 50"
    and sub: "SubscribeToPromiseSettledEvent exampleEnv (ChainID examplePromise) ''p'' ''h'' = None"
    by (simp_all add: exampleEnv_def)
  have covered: "50 + Fee ?resigned \<le> 100"
    by (simp add: examplePromise_def)
  have c: "ChainID examplePromise = 137" and u: "?resigned\<lparr>R := R examplePromise\<rparr> = updatedExample"
    by (simp_all add: examplePromise_def updatedExample_def)
  from settlePrepare_ok [OF fees url resign amt hfee covered sub, of w] show ?thesis
    by (simp only: c u)
qed

lemma exampleEnv_submits: "SettleAndRebalance exampleEnv h i p = None"
  by (simp add: exampleEnv_def)

lemma exampleEnv_times_out: "waitResult exampleEnv = TimedOut"
  by (simp add: exampleEnv_def)

text \<open>
  The theorem at the example call, with a goroutine that is stopped before the caller
  submits. Midway, when the goroutine has closed \<^verbatim>\<open>errCh\<close> and not yet run its release,
  the guard of \<open>''p''\<close> is held. At the end the caller has returned no error, the goroutine
  has exited, no history entry is written, the subscription is cancelled, the guard is free
  and the store holds the entry of \<open>''p''\<close> with no settlement in progress.
\<close>

theorem settle_shutdown_witness:
  "callerPc (tasks (run (exampleEnv\<lparr>waitResult := Stopped\<rparr>) earlyStopSchedule oneCall) ! 0) = Returned None
   \<and> waiterPc (tasks (run (exampleEnv\<lparr>waitResult := Stopped\<rparr>) earlyStopSchedule oneCall) ! 0) = Exited
   \<and> \<not> list_ex isStoreHistory (trace (shared (run (exampleEnv\<lparr>waitResult := Stopped\<rparr>) earlyStopSchedule oneCall)))
   \<and> Cancel \<in> set (trace (shared (run (exampleEnv\<lparr>waitResult := Stopped\<rparr>) earlyStopSchedule oneCall)))
   \<and> \<not> isSettling (currentState (shared (run (exampleEnv\<lparr>waitResult := Stopped\<rparr>) earlyStopSchedule oneCall))) ''p''
   \<and> fst (settle (exampleEnv\<lparr>waitResult := Stopped\<rparr>) (\<lambda>p. SettleAndRebalance exampleEnv ''h'' ''p'' p)
            ''p'' ''h'' examplePromise ''b'' None emptyWorld) = None
   \<and> waiterPc (tasks (run (exampleEnv\<lparr>waitResult := Stopped\<rparr>) midStopSchedule oneCall) ! 0) = AtRelease
   \<and> isSettling (currentState (shared (run (exampleEnv\<lparr>waitResult := Stopped\<rparr>) midStopSchedule oneCall))) ''p''
   \<and> currentState (shared (run (exampleEnv\<lparr>waitResult := Stopped\<rparr>) earlyStopSchedule oneCall))
       = [''p'' \<mapsto> \<lparr>settleInProgress = False, registered = False\<rparr>]
   \<and> currentState (snd (settle (exampleEnv\<lparr>waitResult := Stopped\<rparr>) (\<lambda>p. SettleAndRebalance exampleEnv ''h'' ''p'' p)
            ''p'' ''h'' examplePromise ''b'' None emptyWorld))
       = [''p'' \<mapsto> \<lparr>settleInProgress = False, registered = False\<rparr>]"
proof -
  let ?e = "exampleEnv\<lparr>waitResult := Stopped\<rparr>"
  let ?s = "run ?e earlyStopSchedule oneCall"
  let ?m = "run ?e midStopSchedule oneCall"
  have free: "\<not> isSettling (currentState emptyWorld) ''p''"
    by (simp add: emptyWorld_def isSettling_def)
  have submit: "(\<lambda>p. SettleAndRebalance exampleEnv ''h'' ''p'' p)
                  (examplePromise\<lparr>Fee := 10, R := [], Signature := [2]\<rparr>\<lparr>R := R examplePromise\<rparr>) = None"
    by (simp add: exampleEnv_def)
  have stop: "waitResult ?e = Stopped"
    by simp
  have s: "?s = run ?e earlyStopSchedule
                  \<lparr>tasks = [newTask (\<lambda>p. SettleAndRebalance exampleEnv ''h'' ''p'' p) ''p'' ''h'' examplePromise ''b'' None],
                   shared = emptyWorld\<rparr>"
    and m: "?m = run ?e midStopSchedule
                  \<lparr>tasks = [newTask (\<lambda>p. SettleAndRebalance exampleEnv ''h'' ''p'' p) ''p'' ''h'' examplePromise ''b'' None],
                   shared = emptyWorld\<rparr>"
    by (simp_all add: oneCall_def exampleTask_def)
  note ans = example_answers [of Stopped]
  note atEnd = settle_shutdown [OF free ans(1-3) example_amount(1) ans(4) example_amount(2) ans(5) submit stop s]
  note midway = settle_shutdown [OF free ans(1-3) example_amount(1) ans(4) example_amount(2) ans(5) submit stop m]
  have pcs: "callerPc (tasks ?s ! 0) = Returned None" "waiterPc (tasks ?s ! 0) = Exited"
    by (simp_all add: earlyStopSchedule_def oneCall_def step_def callerStep_def waiterStep_def exampleTask_def
          newTask_def settlePrepare_example_any exampleEnv_submits emptyWorld_def isSettling_def)
  have mid: "waiterPc (tasks ?m ! 0) = AtRelease"
    by (simp add: midStopSchedule_def oneCall_def step_def callerStep_def waiterStep_def exampleTask_def
          newTask_def settlePrepare_example_any exampleEnv_submits emptyWorld_def isSettling_def)
  have quiet: "\<not> list_ex isStoreHistory (trace (shared ?s))"
    using atEnd [THEN conjunct2, THEN conjunct1] by (simp add: emptyWorld_def)
  have exited: "Cancel \<in> set (trace (shared ?s)) \<and> \<not> isSettling (currentState (shared ?s)) ''p''"
    using atEnd [THEN conjunct2, THEN conjunct2, THEN conjunct1] pcs(2) by (simp add: emptyWorld_def)
  have nil: "fst (settle ?e (\<lambda>p. SettleAndRebalance exampleEnv ''h'' ''p'' p)
               ''p'' ''h'' examplePromise ''b'' None emptyWorld) = None"
    using atEnd [THEN conjunct2, THEN conjunct2, THEN conjunct2, THEN conjunct1] .
  have held: "isSettling (currentState (shared ?m)) ''p''"
    using midway [THEN conjunct2, THEN conjunct2, THEN conjunct2, THEN conjunct2, THEN conjunct2,
                  THEN conjunct2, THEN conjunct1] mid
    by simp
  have entry: "currentState (shared ?s) = [''p'' \<mapsto> \<lparr>settleInProgress = False, registered = False\<rparr>]"
    using atEnd [THEN conjunct2, THEN conjunct2, THEN conjunct2, THEN conjunct2, THEN conjunct2,
                 THEN conjunct2, THEN conjunct2, THEN conjunct1] pcs(2)
    by (simp add: emptyWorld_def)
  have final: "currentState (snd (settle ?e (\<lambda>p. SettleAndRebalance exampleEnv ''h'' ''p'' p)
                 ''p'' ''h'' examplePromise ''b'' None emptyWorld))
                = [''p'' \<mapsto> \<lparr>settleInProgress = False, registered = False\<rparr>]"
    using atEnd [THEN conjunct2, THEN conjunct2, THEN conjunct2, THEN conjunct2, THEN conjunct2,
                 THEN conjunct2, THEN conjunct2, THEN conjunct2, THEN conjunct2, THEN conjunct2]
    by (simp add: emptyWorld_def)
  from pcs quiet exited nil mid held entry final show ?thesis
    by blast
qed

lemma guard_held_rejects:
  assumes "isSettling (currentState w) provider"
  shows "settle e settleFunc provider hermesID p beneficiary settled w = (Some ErrAlreadySettling, w)
       \<and> withdraw e chainID provider hermesID beneficiary w = (Some ErrAlreadySettling, w)"
  using assms by (simp add: settle_def withdraw_def)

text \<open>
  Claim C1, at the input where the code departs from it. Two calls of \<^verbatim>\<open>settle\<close> for the
  provider \<open>''p''\<close> run together, and each checks the guard (line 661) before the other
  marks it (line 665). Both pass the check, both mark, both prepare, and both submit the
  promise: the trace holds two submissions for one identity.
\<close>

theorem settle_race_both_pass_guard:
  "callerPc (tasks (run exampleEnv raceSchedule twoCalls) ! 0) = AtReceive
   \<and> callerPc (tasks (run exampleEnv raceSchedule twoCalls) ! 1) = AtReceive
   \<and> trace (shared (run exampleEnv raceSchedule twoCalls))
       = [SetSettling ''p'' True, SetSettling ''p'' True,
          CallFetchSettleFees 137, CallGetHermesURL 137 ''h'', CallUpdatePromiseFee examplePromise 10,
          CallCalculateHermesFee 137 ''h'' 100, Subscribe 137 ''p'' ''h'',
          CallFetchSettleFees 137, CallGetHermesURL 137 ''h'', CallUpdatePromiseFee examplePromise 10,
          CallCalculateHermesFee 137 ''h'' 100, Subscribe 137 ''p'' ''h'',
          Submit updatedExample, Submit updatedExample]"
  by (simp add: raceSchedule_def twoCalls_def step_def callerStep_def exampleTask_def newTask_def
        settlePrepare_example exampleEnv_submits emptyWorld_def isSettling_def)

lemma timeout_handed_over_before_release:
  assumes "waiterPc t = AtSend" and "waiterStep e t w = Some (t', w')"
  shows "callerPc t' = Returned (Some ErrSettleTimeout) \<and> waiterPc t' = AtClose \<and> w' = w"
  using assms by (auto simp add: waiterStep_def split: if_splits)

text \<open>
  Claim C4, at the input where the code departs from it. No confirmation arrives and the
  timer fires: the goroutine hands \<^verbatim>\<open>ErrSettleTimeout\<close> to the caller (line 759) before its
  deferred \<^verbatim>\<open>setSettling(provider, false)\<close> runs. When the caller has the error the guard
  is still held, and a settlement retried at once returns the already-in-progress error.
\<close>

theorem settle_timeout_guard_still_held:
  "callerPc (tasks (run exampleEnv timeoutSchedule oneCall) ! 0) = Returned (Some ErrSettleTimeout)
   \<and> waiterPc (tasks (run exampleEnv timeoutSchedule oneCall) ! 0) = AtClose
   \<and> isSettling (currentState (shared (run exampleEnv timeoutSchedule oneCall))) ''p''
   \<and> fst (settle exampleEnv (\<lambda>p. SettleAndRebalance exampleEnv ''h'' ''p'' p) ''p'' ''h'' examplePromise ''b'' None
            (shared (run exampleEnv timeoutSchedule oneCall)))
       = Some ErrAlreadySettling"
proof -
  have r: "run exampleEnv timeoutSchedule oneCall =
             \<lparr>tasks = [exampleTask\<lparr>callerPc := Returned (Some ErrSettleTimeout), waiterPc := AtClose\<rparr>],
              shared = emit (Submit updatedExample)
                (emit (Subscribe 137 ''p'' ''h'')
                  (emit (CallCalculateHermesFee 137 ''h'' 100)
                    (emit (CallUpdatePromiseFee examplePromise 10)
                      (emit (CallGetHermesURL 137 ''h'')
                        (emit (CallFetchSettleFees 137) (setSettlingW ''p'' True emptyWorld))))))\<rparr>"
    by (simp add: timeoutSchedule_def oneCall_def step_def callerStep_def waiterStep_def exampleTask_def
          newTask_def settlePrepare_example exampleEnv_submits exampleEnv_times_out emptyWorld_def isSettling_def)
  show ?thesis
    by (simp add: r settle_def)
qed

section \<open>The withdrawal executor at concrete inputs\<close>


text \<open>
  The theorem of claim C9 at the example promise, whose updated fee is 10: a withdrawal
  amount of 5 is rejected before any subscription, one of 100 is submitted and, no
  confirmation arriving, ends in \<^verbatim>\<open>ErrSettleTimeout\<close>.
\<close>

theorem payAndSettle_fee_bound_witness:
  "fst (payAndSettle exampleEnv (\<lambda>_. None) ''p'' ''h'' examplePromise ''b'' 5 emptyWorld)
     = Some (ErrAmountTooSmall 10 5)
   \<and> trace (snd (payAndSettle exampleEnv (\<lambda>_. None) ''p'' ''h'' examplePromise ''b'' 5 emptyWorld))
       = [CallFetchSettleFees 137, CallGetHermesURL 137 ''h'', CallUpdatePromiseFee examplePromise 10]
   \<and> fst (payAndSettle exampleEnv (\<lambda>_. None) ''p'' ''h'' examplePromise ''b'' 100 emptyWorld)
       = Some ErrSettleTimeout
   \<and> (\<exists>rest. trace (snd (payAndSettle exampleEnv (\<lambda>_. None) ''p'' ''h'' examplePromise ''b'' 100 emptyWorld))
         = [CallFetchSettleFees 137, CallGetHermesURL 137 ''h'', CallUpdatePromiseFee examplePromise 10,
            Subscribe 137 ''p'' ''h'', Submit updatedExample] @ rest)"
proof -
  have e: "exampleEnv\<lparr>waitResult := TimedOut\<rparr> = exampleEnv"
    by (simp add: exampleEnv_def)
  note ans = example_answers [of TimedOut, unfolded e]
  have small: "5 < Fee (examplePromise\<lparr>Fee := 10, R := [], Signature := [2]\<rparr>)"
    and enough: "Fee (examplePromise\<lparr>Fee := 10, R := [], Signature := [2]\<rparr>) \<le> 100"
    by (simp_all add: examplePromise_def)
  note rejected = payAndSettle_fee_bound [OF ans(1-3), THEN conjunct1, THEN mp, OF small,
                    of "\<lambda>_. None" "''p''" "''b''" emptyWorld]
  note proceeds = payAndSettle_fee_bound [OF ans(1-3), THEN conjunct2, THEN conjunct1, THEN mp, OF enough,
                    of "\<lambda>_. None" "''p''" "''b''" emptyWorld]
  have c: "ChainID examplePromise = 137"
    and u: "examplePromise\<lparr>Fee := 10, R := [], Signature := [2]\<rparr>\<lparr>R := R examplePromise\<rparr> = updatedExample"
    and f: "Fee (examplePromise\<lparr>Fee := 10, R := [], Signature := [2]\<rparr>) = 10"
    by (simp_all add: examplePromise_def updatedExample_def)
  have sub: "SubscribeToPromiseSettledEvent exampleEnv 137 ''p'' ''h'' = None"
    by (simp add: exampleEnv_def)
  from rejected proceeds show ?thesis
    by (simp add: c u f sub exampleEnv_times_out emptyWorld_def)
qed

text \<open>
  Through \<^verbatim>\<open>withdraw\<close> the bound is the balance of the consumer channel: with a balance
  of 40 and a fee of 50 the withdrawal is rejected, although the stored promise is worth 100.
\<close>

lemma withdraw_example_bound:
  "fst (withdraw (exampleEnv\<lparr>FetchSettleFees := \<lambda>_. Inr 50, GetMystBalance := \<lambda>_ _ _. Inr 40\<rparr>)
          137 ''p'' ''h'' ''b'' emptyWorld)
     = Some (ErrAmountTooSmall 50 40)"
  by (simp add: withdraw_def withdrawGuarded_def getWithdrawalAmount_def issueSelfPromise_def
        payAndSettle_def updatePromiseWithLatestFee_def Let_def fromHexChar_def
        exampleEnv_def examplePromise_def emptyWorld_def isSettling_def)

end
